theory Spec2Isabelle
  imports Complex_Main "HOL-Library.Char_ord" "HOL-Library.List_Lexorder"
begin

section \<open>Python values\<close>

text \<open>
  Exceptions are values of \<open>error\<close>; a computation that can raise returns
  \<open>error + 'a\<close> with \<open>Inl\<close> the exception.
\<close>

datatype error = ReadError | TypeError | ValueError | IndexError | OverflowError
  | ZeroDivisionError | AttributeError

text \<open>
  \<open>datetime.datetime\<close> (naive): the seven fields of the Python object.
\<close>

record datetime =
  dt_year :: int
  dt_month :: int
  dt_day :: int
  dt_hour :: int
  dt_minute :: int
  dt_second :: int
  dt_microsecond :: int

text \<open>
  The values the scripts put into CSV cells and test for truth. Python floats are
  idealised as exact rationals (\<open>PNum\<close>): \<open>/\<close> is exact division.
\<close>

datatype pyval = PNone | PStr string | PInt int | PNum rat | PDatetime datetime

fun truthy :: "pyval \<Rightarrow> bool" where
  "truthy PNone = False"
| "truthy (PStr s) = (s \<noteq> [])"
| "truthy (PInt i) = (i \<noteq> 0)"
| "truthy (PNum r) = (r \<noteq> 0)"
| "truthy (PDatetime d) = True"

text \<open>
  An attribute of a header object: missing (\<open>hasattr\<close> is false), present with the
  value \<open>None\<close>, or present with a value.
\<close>

datatype 'a attr = Absent | PyNone | Val 'a

definition hasattr :: "'a attr \<Rightarrow> bool" where
  "hasattr a = (a \<noteq> Absent)"

text \<open>\<open>obj.a if hasattr(obj, 'a') else ''\<close>\<close>

fun attr_or_empty :: "('a \<Rightarrow> pyval) \<Rightarrow> 'a attr \<Rightarrow> pyval" where
  "attr_or_empty f Absent = PStr ''''"
| "attr_or_empty f PyNone = PNone"
| "attr_or_empty f (Val v) = f v"

text \<open>\<open>obj.a\<close> with no guard: AttributeError when the attribute is missing.\<close>

fun getattr :: "('a \<Rightarrow> pyval) \<Rightarrow> 'a attr \<Rightarrow> error + pyval" where
  "getattr f Absent = Inl AttributeError"
| "getattr f PyNone = Inr PNone"
| "getattr f (Val v) = Inr (f v)"

fun num_of :: "pyval \<Rightarrow> rat option" where
  "num_of (PInt i) = Some (of_int i)"
| "num_of (PNum r) = Some r"
| "num_of v = None"

text \<open>\<open>a / b\<close> and \<open>a > 0\<close> on Python values.\<close>

definition py_truediv :: "pyval \<Rightarrow> pyval \<Rightarrow> error + rat" where
  "py_truediv a b =
     (case (num_of a, num_of b) of
        (Some x, Some y) \<Rightarrow> if y = 0 then Inl ZeroDivisionError else Inr (x / y)
      | _ \<Rightarrow> Inl TypeError)"

definition py_gt0 :: "pyval \<Rightarrow> error + bool" where
  "py_gt0 a = (case num_of a of Some x \<Rightarrow> Inr (x > 0) | None \<Rightarrow> Inl TypeError)"

text \<open>\<open>xs[i]\<close> for \<open>i \<ge> 0\<close>.\<close>

definition index :: "'a list \<Rightarrow> nat \<Rightarrow> error + 'a" where
  "index xs i = (if i < length xs then Inr (xs ! i) else Inl IndexError)"

text \<open>\<open>int(x)\<close> of a float: truncation towards zero.\<close>

definition int_of_float :: "rat \<Rightarrow> int" where
  "int_of_float x = (if x \<ge> 0 then \<lfloor>x\<rfloor> else \<lceil>x\<rceil>)"

section \<open>Python strings (ASCII)\<close>

text \<open>
  Labels, comments, column names and directory names are modelled as \<open>string\<close>.
  WFDB headers and the corpus paths are ASCII; \<open>str.upper\<close>, \<open>str.lower\<close>, the
  classes \<open>\s\<close> and \<open>\d\<close> and \<open>re.IGNORECASE\<close> are modelled on ASCII characters.
\<close>

definition ascii_lowers :: string where
  "ascii_lowers = ''abcdefghijklmnopqrstuvwxyz''"

definition ascii_uppers :: string where
  "ascii_uppers = ''ABCDEFGHIJKLMNOPQRSTUVWXYZ''"

definition upper_char :: "char \<Rightarrow> char" where
  "upper_char c = (case map_of (zip ascii_lowers ascii_uppers) c of Some u \<Rightarrow> u | None \<Rightarrow> c)"

definition lower_char :: "char \<Rightarrow> char" where
  "lower_char c = (case map_of (zip ascii_uppers ascii_lowers) c of Some l \<Rightarrow> l | None \<Rightarrow> c)"

definition upper :: "string \<Rightarrow> string" where
  "upper s = map upper_char s"

definition lower :: "string \<Rightarrow> string" where
  "lower s = map lower_char s"

text \<open>\<open>s.startswith(p)\<close>, \<open>s.endswith(p)\<close> and \<open>p in s\<close>.\<close>

definition startswith :: "string \<Rightarrow> string \<Rightarrow> bool" where
  "startswith s p = (take (length p) s = p)"

definition endswith :: "string \<Rightarrow> string \<Rightarrow> bool" where
  "endswith s p = startswith (rev s) (rev p)"

fun contains :: "string \<Rightarrow> string \<Rightarrow> bool" where
  "contains [] p = (p = [])"
| "contains (c # cs) p = (startswith (c # cs) p \<or> contains cs p)"

text \<open>
  The class \<open>\s\<close> of a \<open>str\<close> pattern on ASCII text: tab, newline, vertical tab, form
  feed, carriage return, the four separators 0x1C to 0x1F, and the space.
\<close>

definition is_space :: "char \<Rightarrow> bool" where
  "is_space c = (c \<in> set [CHR 0x09, CHR 0x0A, CHR 0x0B, CHR 0x0C, CHR 0x0D,
                            CHR 0x1C, CHR 0x1D, CHR 0x1E, CHR 0x1F, CHR 0x20])"

text \<open>
  The whitespace \<open>int()\<close> strips from an ASCII string: tab, newline, vertical tab, form
  feed, carriage return and the space; 0x1C to 0x1F are not stripped.
\<close>

definition is_int_space :: "char \<Rightarrow> bool" where
  "is_int_space c = (c \<in> set [CHR 0x09, CHR 0x0A, CHR 0x0B, CHR 0x0C, CHR 0x0D, CHR 0x20])"

definition is_digit :: "char \<Rightarrow> bool" where
  "is_digit c = (c \<in> set ''0123456789'')"

definition digit_val :: "char \<Rightarrow> int" where
  "digit_val c =
     (case map_of (zip ''0123456789'' [0, 1, 2, 3, 4, 5, 6, 7, 8, 9]) c of
        Some v \<Rightarrow> v | None \<Rightarrow> 0)"

definition int_of_digits :: "string \<Rightarrow> int" where
  "int_of_digits ds = foldl (\<lambda>a c. 10 * a + digit_val c) 0 ds"

text \<open>
  \<open>int(s)\<close> of an ASCII string: surrounding whitespace is stripped, one sign is
  allowed, and the digits may be grouped by single underscores; anything else raises
  ValueError.
\<close>

definition strip :: "string \<Rightarrow> string" where
  "strip s = rev (dropWhile is_int_space (rev (dropWhile is_int_space s)))"

definition int_literal_ok :: "string \<Rightarrow> bool" where
  "int_literal_ok s =
     (s \<noteq> [] \<and> is_digit (hd s) \<and> is_digit (last s) \<and>
      list_all (\<lambda>c. is_digit c \<or> c = CHR ''_'') s \<and> \<not> contains s ''__'')"

definition py_int :: "string \<Rightarrow> error + int" where
  "py_int s0 =
     (let s = strip s0;
          neg = startswith s ''-'';
          body = (if startswith s ''-'' \<or> startswith s ''+'' then tl s else s)
      in if int_literal_ok body
         then Inr ((if neg then - 1 else 1) * int_of_digits (filter is_digit body))
         else Inl ValueError)"

section \<open>Regular expressions of the identity resolver\<close>

text \<open>
  \<open>re.search(lit sep+ (\d+), s, re.IGNORECASE)\<close> for a literal \<open>lit\<close> (given in lower
  case) and a character class \<open>sep\<close> disjoint from the digits: the leftmost position
  where the literal matches ignoring case, followed by at least one separator and at
  least one digit; group 1 is the longest run of digits there. Since no separator is a
  digit, backtracking over \<open>sep+\<close> cannot produce a match the greedy run misses.
\<close>

definition match_at :: "string \<Rightarrow> (char \<Rightarrow> bool) \<Rightarrow> string \<Rightarrow> string option" where
  "match_at lit sep s =
     (if startswith (lower s) lit
      then (let rest = drop (length lit) s;
                seps = takeWhile sep rest;
                digits = takeWhile is_digit (dropWhile sep rest)
            in if seps \<noteq> [] \<and> digits \<noteq> [] then Some digits else None)
      else None)"

fun re_search :: "string \<Rightarrow> (char \<Rightarrow> bool) \<Rightarrow> string \<Rightarrow> string option" where
  "re_search lit sep [] = match_at lit sep []"
| "re_search lit sep (c # cs) =
     (case match_at lit sep (c # cs) of
        Some g \<Rightarrow> Some g
      | None \<Rightarrow> re_search lit sep cs)"

text \<open>\<open>hadm_id\s+(\d+)\<close>, \<open>hospital admission id[:\s]+(\d+)\<close>, \<open>subject_id\s+(\d+)\<close>\<close>

definition re_hadm_id :: "string \<Rightarrow> string option" where
  "re_hadm_id comment = re_search ''hadm_id'' is_space comment"

definition re_hospital_admission_id :: "string \<Rightarrow> string option" where
  "re_hospital_admission_id comment =
     re_search ''hospital admission id'' (\<lambda>c. c = CHR '':'' \<or> is_space c) comment"

definition re_subject_id :: "string \<Rightarrow> string option" where
  "re_subject_id comment = re_search ''subject_id'' is_space comment"

section \<open>Dates and times\<close>

text \<open>
  The proleptic Gregorian ordinal arithmetic of Python's \<open>datetime\<close> module
  (\<open>_ymd2ord\<close>, \<open>_ord2ymd\<close>), \<open>timedelta(seconds=x)\<close> as a number of microseconds
  (rounded half to even, at most 999999999 days), \<open>datetime + timedelta\<close> with its
  OverflowError outside the years 1..9999, and \<open>strftime('%Y-%m-%d %H:%M:%S')\<close>
  with a four-digit year.
\<close>

definition is_leap :: "int \<Rightarrow> bool" where
  "is_leap y = (y mod 4 = 0 \<and> (y mod 100 \<noteq> 0 \<or> y mod 400 = 0))"

definition days_before_year :: "int \<Rightarrow> int" where
  "days_before_year y = (let y1 = y - 1 in y1 * 365 + y1 div 4 - y1 div 100 + y1 div 400)"

definition DAYS_IN_MONTH :: "int list" where
  "DAYS_IN_MONTH = [- 1, 31, 28, 31, 30, 31, 30, 31, 31, 30, 31, 30, 31]"

definition DAYS_BEFORE_MONTH :: "int list" where
  "DAYS_BEFORE_MONTH = [- 1, 0, 31, 59, 90, 120, 151, 181, 212, 243, 273, 304, 334]"

definition days_before_month :: "int \<Rightarrow> int \<Rightarrow> int" where
  "days_before_month y m =
     DAYS_BEFORE_MONTH ! nat m + (if m > 2 \<and> is_leap y then 1 else 0)"

definition ymd2ord :: "int \<Rightarrow> int \<Rightarrow> int \<Rightarrow> int" where
  "ymd2ord y m d = days_before_year y + days_before_month y m + d"

definition ord2ymd :: "int \<Rightarrow> int \<times> int \<times> int" where
  "ord2ymd n0 =
     (let n = n0 - 1;
          n400 = n div 146097; n = n mod 146097;
          year = n400 * 400 + 1;
          n100 = n div 36524; n = n mod 36524;
          n4 = n div 1461; n = n mod 1461;
          n1 = n div 365; n = n mod 365;
          year = year + n100 * 100 + n4 * 4 + n1
      in if n1 = 4 \<or> n100 = 4 then (year - 1, 12, 31)
         else
           (let leapyear = (n1 = 3 \<and> (n4 \<noteq> 24 \<or> n100 = 3));
                month = (n + 50) div 32;
                preceding = DAYS_BEFORE_MONTH ! nat month
                              + (if month > 2 \<and> leapyear then 1 else 0)
            in if preceding > n
               then (let month = month - 1;
                         preceding = preceding -
                           (DAYS_IN_MONTH ! nat month + (if month = 2 \<and> leapyear then 1 else 0))
                     in (year, month, n - preceding + 1))
               else (year, month, n - preceding + 1)))"

definition round_half_even :: "rat \<Rightarrow> int" where
  "round_half_even x =
     (let f = \<lfloor>x\<rfloor>; r = x - of_int f
      in if r < 1 / 2 then f else if r > 1 / 2 then f + 1 else if even f then f else f + 1)"

definition timedelta_seconds :: "rat \<Rightarrow> error + int" where
  "timedelta_seconds x =
     (let us = round_half_even (x * 1000000); d = us div 86400000000
      in if d < - 999999999 \<or> d > 999999999 then Inl OverflowError else Inr us)"

definition datetime_add :: "datetime \<Rightarrow> int \<Rightarrow> error + datetime" where
  "datetime_add dt td =
     (let total = (((ymd2ord (dt_year dt) (dt_month dt) (dt_day dt) * 24 + dt_hour dt) * 60
                     + dt_minute dt) * 60 + dt_second dt) * 1000000 + dt_microsecond dt + td;
          days = total div 86400000000;
          rem = total mod 86400000000;
          seconds = rem div 1000000;
          hour = seconds div 3600;
          minute = seconds mod 3600 div 60;
          second = seconds mod 60
      in if 0 < days \<and> days \<le> 3652059
         then (case ord2ymd days of (y, m, d) \<Rightarrow>
                 Inr \<lparr>dt_year = y, dt_month = m, dt_day = d, dt_hour = hour,
                      dt_minute = minute, dt_second = second,
                      dt_microsecond = rem mod 1000000\<rparr>)
         else Inl OverflowError)"

text \<open>\<open>dt + timedelta(seconds=x)\<close>\<close>

definition add_seconds :: "datetime \<Rightarrow> rat \<Rightarrow> error + datetime" where
  "add_seconds dt x =
     (case timedelta_seconds x of Inl e \<Rightarrow> Inl e | Inr td \<Rightarrow> datetime_add dt td)"

definition digit_char :: "int \<Rightarrow> char" where
  "digit_char n = ''0123456789'' ! nat (n mod 10)"

definition pad2 :: "int \<Rightarrow> string" where
  "pad2 n = [digit_char (n div 10), digit_char n]"

definition pad4 :: "int \<Rightarrow> string" where
  "pad4 n = [digit_char (n div 1000), digit_char (n div 100), digit_char (n div 10),
             digit_char n]"

definition strftime :: "datetime \<Rightarrow> string" where
  "strftime dt =
     pad4 (dt_year dt) @ ''-'' @ pad2 (dt_month dt) @ ''-'' @ pad2 (dt_day dt) @ '' ''
       @ pad2 (dt_hour dt) @ '':'' @ pad2 (dt_minute dt) @ '':'' @ pad2 (dt_second dt)"

section \<open>The header collaborator\<close>

text \<open>
  \<open>wfdb.rdheader\<close> is external: it is a parameter of the model. It returns a header
  object or raises. The attributes the scripts read, each possibly missing or \<open>None\<close>:
\<close>

record header =
  comments :: "string list attr"
  base_datetime :: "datetime attr"
  sig_len :: "int attr"
  fs :: "rat attr"
  seg_name :: "string list attr"
  seg_len :: "int list attr"
  n_sig :: "int attr"
  sig_name :: "string list attr"
  units :: "pyval list attr"
  adc_gain :: "pyval list attr"
  baseline :: "pyval list attr"
  adc_res :: "pyval list attr"
  file_name :: "pyval list attr"

text \<open>
  The numerics file of a record as \<open>pd.read_csv\<close> returns it: the column names and
  the rows, a missing value (NaN) as \<open>None\<close>. The file may not exist (\<open>None\<close>) and
  reading it may raise.
\<close>

type_synonym numerics_table = "string list \<times> rat option list list"

record env =
  rdheader :: "string \<Rightarrow> error + header"
  read_numerics :: "string \<Rightarrow> (error + numerics_table) option"

text \<open>A header object with no attribute at all, to build examples from.\<close>

definition no_header :: header where
  "no_header =
     \<lparr>comments = Absent, base_datetime = Absent, sig_len = Absent, fs = Absent,
      seg_name = Absent, seg_len = Absent, n_sig = Absent, sig_name = Absent,
      units = Absent, adc_gain = Absent, baseline = Absent, adc_res = Absent,
      file_name = Absent\<rparr>"

text \<open>The timestamp 2023-01-01 00:00:00, for examples.\<close>

definition new_year_2023 :: datetime where
  "new_year_2023 =
     \<lparr>dt_year = 2023, dt_month = 1, dt_day = 1, dt_hour = 0, dt_minute = 0, dt_second = 0,
      dt_microsecond = 0\<rparr>"

section \<open>Corpus scanner: \<open>find_all_records\<close>\<close>

text \<open>A directory tree: a file, or a directory with its named entries.\<close>

datatype fs_node = File | Dir "(string \<times> fs_node) list"

fun is_dir :: "fs_node \<Rightarrow> bool" where
  "is_dir File = False"
| "is_dir (Dir entries) = True"

fun iterdir :: "fs_node \<Rightarrow> (string \<times> fs_node) list" where
  "iterdir File = []"
| "iterdir (Dir entries) = entries"

text \<open>\<open>sorted(d.glob('p*'))\<close> and \<open>sorted(d.iterdir())\<close>: siblings are ordered by name.\<close>

definition sorted_glob_p :: "fs_node \<Rightarrow> (string \<times> fs_node) list" where
  "sorted_glob_p d = sort_key fst (filter (\<lambda>e. startswith (fst e) ''p'') (iterdir d))"

definition sorted_iterdir :: "fs_node \<Rightarrow> (string \<times> fs_node) list" where
  "sorted_iterdir d = sort_key fst (iterdir d)"

definition exists_in :: "fs_node \<Rightarrow> string \<Rightarrow> bool" where
  "exists_in d name = (map_of (iterdir d) name \<noteq> None)"

text \<open>
  The innermost loop, over the entries of one subject directory. \<open>int(subject_id)\<close> is
  evaluated when a record directory with its header file is found, and its ValueError
  is not caught.
\<close>

fun scan_record_dirs ::
  "string \<Rightarrow> string \<Rightarrow> string \<Rightarrow> (string \<times> fs_node) list \<Rightarrow> error + (string \<times> string \<times> int) list"
where
  "scan_record_dirs p_name patient_name subject_id [] = Inr []"
| "scan_record_dirs p_name patient_name subject_id ((record_name, record_dir) # rest) =
     (if \<not> is_dir record_dir then scan_record_dirs p_name patient_name subject_id rest
      else if exists_in record_dir (record_name @ ''.hea'')
      then (case py_int subject_id of
              Inl e \<Rightarrow> Inl e
            | Inr sid \<Rightarrow>
                (case scan_record_dirs p_name patient_name subject_id rest of
                   Inl e \<Rightarrow> Inl e
                 | Inr records \<Rightarrow>
                     Inr ((p_name @ ''/'' @ patient_name @ ''/'' @ record_name, record_name, sid)
                          # records)))
      else scan_record_dirs p_name patient_name subject_id rest)"

fun scan_patient_dirs ::
  "string \<Rightarrow> (string \<times> fs_node) list \<Rightarrow> error + (string \<times> string \<times> int) list"
where
  "scan_patient_dirs p_name [] = Inr []"
| "scan_patient_dirs p_name ((patient_name, patient_dir) # rest) =
     (if \<not> is_dir patient_dir then scan_patient_dirs p_name rest
      else (case scan_record_dirs p_name patient_name (drop 1 patient_name)
                   (sorted_iterdir patient_dir) of
              Inl e \<Rightarrow> Inl e
            | Inr records \<Rightarrow>
                (case scan_patient_dirs p_name rest of
                   Inl e \<Rightarrow> Inl e
                 | Inr later \<Rightarrow> Inr (records @ later))))"

fun scan_p_dirs :: "(string \<times> fs_node) list \<Rightarrow> error + (string \<times> string \<times> int) list" where
  "scan_p_dirs [] = Inr []"
| "scan_p_dirs ((p_name, p_dir) # rest) =
     (if \<not> is_dir p_dir then scan_p_dirs rest
      else (case scan_patient_dirs p_name (sorted_glob_p p_dir) of
              Inl e \<Rightarrow> Inl e
            | Inr records \<Rightarrow>
                (case scan_p_dirs rest of
                   Inl e \<Rightarrow> Inl e
                 | Inr later \<Rightarrow> Inr (records @ later))))"

definition find_all_records :: "fs_node \<Rightarrow> error + (string \<times> string \<times> int) list" where
  "find_all_records data_path = scan_p_dirs (sorted_glob_p data_path)"

text \<open>
  The result of the scan described level by level: the record directories of a subject
  directory that hold their own header file, the tuples a subject directory
  contributes, and when it makes the scan raise.
\<close>

definition valid_record_dirs :: "fs_node \<Rightarrow> (string \<times> fs_node) list" where
  "valid_record_dirs patient_dir =
     filter (\<lambda>en. is_dir (snd en) \<and> exists_in (snd en) (fst en @ ''.hea''))
       (sorted_iterdir patient_dir)"

definition patient_raises :: "string \<times> fs_node \<Rightarrow> bool" where
  "patient_raises pe =
     (valid_record_dirs (snd pe) \<noteq> [] \<and> py_int (drop 1 (fst pe)) = Inl ValueError)"

definition patient_tuples :: "string \<Rightarrow> string \<times> fs_node \<Rightarrow> (string \<times> string \<times> int) list" where
  "patient_tuples p_name pe =
     (case py_int (drop 1 (fst pe)) of
        Inl err \<Rightarrow> []
      | Inr sid \<Rightarrow>
          map (\<lambda>en. (p_name @ ''/'' @ fst pe @ ''/'' @ fst en, fst en, sid))
            (valid_record_dirs (snd pe)))"

definition sorted_p_dirs :: "fs_node \<Rightarrow> (string \<times> fs_node) list" where
  "sorted_p_dirs d = filter (\<lambda>en. is_dir (snd en)) (sorted_glob_p d)"

definition group_raises :: "string \<times> fs_node \<Rightarrow> bool" where
  "group_raises ge = list_ex patient_raises (sorted_p_dirs (snd ge))"

definition group_tuples :: "string \<times> fs_node \<Rightarrow> (string \<times> string \<times> int) list" where
  "group_tuples ge = concat (map (patient_tuples (fst ge)) (sorted_p_dirs (snd ge)))"

text \<open>
  A corpus with one conforming subject directory and, sorted after it, a subject
  directory \<open>pXYZ\<close> that holds a record; and the same corpus where \<open>pXYZ\<close> holds no
  record directory with a header.
\<close>

definition corpus_with_bad_subject :: fs_node where
  "corpus_with_bad_subject =
     Dir [(''p100'',
           Dir [(''p10014354'', Dir [(''83411188'', Dir [(''83411188.hea'', File)])]),
                (''pXYZ'', Dir [(''rec1'', Dir [(''rec1.hea'', File)])])]),
          (''README.txt'', File)]"

definition corpus_with_empty_bad_subject :: fs_node where
  "corpus_with_empty_bad_subject =
     Dir [(''p100'',
           Dir [(''p10014354'', Dir [(''83411188'', Dir [(''83411188.hea'', File)]),
                                     (''notes'', Dir [(''other.hea'', File)])]),
                (''pXYZ'', Dir [(''rec1'', Dir [])]),
                (''q200'', Dir [(''rec2'', Dir [(''rec2.hea'', File)])])]),
          (''README.txt'', File)]"

section \<open>Signal classifier: \<open>categorize_signal_type\<close>\<close>

definition ecg_leads :: "string list" where
  "ecg_leads = [''I'', ''II'', ''III'', ''AVR'', ''AVL'', ''AVF'', ''V'', ''V1'', ''V2'', ''V3'',
                ''V4'', ''V5'', ''V6'', ''MCL'', ''AI'', ''AS'', ''ES'']"

definition pressure_types :: "string list" where
  "pressure_types = [''ABP'', ''ART'', ''AO'', ''BAP'', ''CVP'', ''FAP'', ''ICP'', ''IC1'', ''IC2'',
                     ''LAP'', ''PAP'', ''RAP'', ''UAP'', ''UVP'', ''P'', ''P1'', ''P2'', ''P4'']"

definition categorize_signal_type :: "string \<Rightarrow> string" where
  "categorize_signal_type signal_name =
     (let signal_name_upper = upper signal_name in
      if list_ex (\<lambda>lead. signal_name_upper = lead \<or> startswith signal_name_upper lead) ecg_leads
        then ''ECG''
      else if list_ex (\<lambda>pressure. contains signal_name_upper pressure) pressure_types
        then ''Pressure''
      else if contains signal_name_upper ''PLETH'' then ''Plethysmogram''
      else if contains signal_name_upper ''RESP'' then ''Respiration''
      else if contains signal_name_upper ''CO2'' then ''Capnography''
      else ''Other'')"

section \<open>Full extractor: \<open>extract_metadata\<close>\<close>

subsection \<open>Identity resolver (the loop over the header comments)\<close>

text \<open>
  One iteration of \<open>for comment in record.comments\<close> on the pair
  \<open>(hadm_id, subject_id_from_header)\<close>.
\<close>

definition comment_step :: "string \<times> int option \<Rightarrow> string \<Rightarrow> string \<times> int option" where
  "comment_step st comment =
     (let hadm_id = fst st;
          subject_id_from_header = snd st;
          hadm_id =
            (if contains (lower comment) ''hadm_id''
             then (case re_hadm_id comment of Some g \<Rightarrow> g | None \<Rightarrow> hadm_id)
             else if contains (lower comment) ''hospital admission id''
             then (case re_hospital_admission_id comment of Some g \<Rightarrow> g | None \<Rightarrow> hadm_id)
             else hadm_id);
          subject_id_from_header =
            (if contains (lower comment) ''subject_id''
             then (case re_subject_id comment of
                     Some g \<Rightarrow> Some (int_of_digits g)
                   | None \<Rightarrow> subject_id_from_header)
             else subject_id_from_header)
      in (hadm_id, subject_id_from_header))"

text \<open>
  What the \<open>if\<close>/\<open>elif\<close> of lines 168 to 175 does with one comment: on a comment that
  contains \<open>hadm_id\<close> only the first pattern is tried; the second pattern is tried on
  a comment that does not contain \<open>hadm_id\<close> and contains \<open>hospital admission id\<close>.
  The result is the group captured, or \<open>None\<close> when the comment leaves \<open>hadm_id\<close> as
  it is. This is the test of the code, not the two patterns taken by themselves: a
  comment that matches the second pattern and contains \<open>hadm_id\<close> without matching the
  first gives \<open>None\<close>.
\<close>

definition comment_hadm_match :: "string \<Rightarrow> string option" where
  "comment_hadm_match comment =
     (if contains (lower comment) ''hadm_id'' then re_hadm_id comment
      else if contains (lower comment) ''hospital admission id''
      then re_hospital_admission_id comment
      else None)"

text \<open>Likewise for \<open>subject_id_from_header\<close> (line 180).\<close>

definition comment_subject_match :: "string \<Rightarrow> int option" where
  "comment_subject_match comment =
     (if contains (lower comment) ''subject_id''
      then map_option int_of_digits (re_subject_id comment)
      else None)"

definition scan_comments :: "header \<Rightarrow> error + string \<times> int option" where
  "scan_comments record =
     (case comments record of
        Absent \<Rightarrow> Inr ('''', None)
      | PyNone \<Rightarrow> Inl TypeError
      | Val cs \<Rightarrow> Inr (foldl comment_step ('''', None) cs))"

text \<open>The comments the loop runs over (none when the attribute is missing).\<close>

definition comment_list :: "header \<Rightarrow> string list" where
  "comment_list record = (case comments record of Val cs \<Rightarrow> cs | _ \<Rightarrow> [])"

text \<open>\<open>if subject_id_from_header: subject_id = subject_id_from_header\<close>\<close>

definition choose_subject_id :: "int option \<Rightarrow> int \<Rightarrow> int" where
  "choose_subject_id subject_id_from_header subject_id =
     (case subject_id_from_header of
        Some n \<Rightarrow> if n \<noteq> 0 then n else subject_id
      | None \<Rightarrow> subject_id)"

subsection \<open>Record row\<close>

definition num_segments_of :: "header \<Rightarrow> error + int" where
  "num_segments_of record =
     (case seg_name record of
        Absent \<Rightarrow> Inr 0
      | PyNone \<Rightarrow> Inl TypeError
      | Val names \<Rightarrow> Inr (int (length names)))"

text \<open>\<open>start_datetime + timedelta(seconds=x)\<close>, where \<open>x\<close> itself may have raised.\<close>

definition plus_seconds :: "pyval \<Rightarrow> error + rat \<Rightarrow> error + datetime" where
  "plus_seconds start x =
     (case x of
        Inl e \<Rightarrow> Inl e
      | Inr q \<Rightarrow> (case start of PDatetime d \<Rightarrow> add_seconds d q | _ \<Rightarrow> Inl TypeError))"

definition calc_end_datetime :: "pyval \<Rightarrow> pyval \<Rightarrow> pyval \<Rightarrow> pyval" where
  "calc_end_datetime start_datetime duration_sec base_freq =
     (if truthy start_datetime \<and> truthy duration_sec \<and> truthy base_freq
      then (case plus_seconds start_datetime (py_truediv duration_sec base_freq) of
              Inr end_dt \<Rightarrow> PStr (strftime end_dt)
            | Inl e \<Rightarrow> PStr '''')
      else PStr '''')"

text \<open>The same value, read off the three attributes of the header.\<close>

definition expected_end_datetime :: "header \<Rightarrow> pyval" where
  "expected_end_datetime record =
     (case (base_datetime record, sig_len record, fs record) of
        (Val d, Val n, Val f) \<Rightarrow>
          if n \<noteq> 0 \<and> f \<noteq> 0
          then (case add_seconds d (of_int n / f) of
                  Inr end_dt \<Rightarrow> PStr (strftime end_dt) | Inl err \<Rightarrow> PStr '''')
          else PStr ''''
      | _ \<Rightarrow> PStr '''')"

definition format_start :: "pyval \<Rightarrow> pyval" where
  "format_start start_datetime =
     (case start_datetime of PDatetime d \<Rightarrow> PStr (strftime d) | v \<Rightarrow> v)"

text \<open>
  Lines 162 to 209: everything up to the row written to \<open>waveform_records.csv\<close>. An
  exception here leaves the record without any row.
\<close>

definition record_row :: "header \<Rightarrow> string \<Rightarrow> string \<Rightarrow> int \<Rightarrow> error + pyval list" where
  "record_row record record_path record_name subject_id =
     (case scan_comments record of
        Inl e \<Rightarrow> Inl e
      | Inr ids \<Rightarrow>
          (let hadm_id = fst ids;
               subject_id = choose_subject_id (snd ids) subject_id;
               start_datetime = attr_or_empty PDatetime (base_datetime record);
               duration_sec = attr_or_empty PInt (sig_len record);
               base_freq = attr_or_empty PNum (fs record)
           in case num_segments_of record of
                Inl e \<Rightarrow> Inl e
              | Inr num_segments \<Rightarrow>
                  (let end_datetime = calc_end_datetime start_datetime duration_sec base_freq;
                       start_datetime = format_start start_datetime
                   in Inr [PStr record_name, PInt subject_id, PStr hadm_id, start_datetime,
                           end_datetime, duration_sec, PStr record_path,
                           PStr (record_name @ ''.hea''), base_freq, PInt num_segments])))"

subsection \<open>Segments and signals\<close>

definition skip_segment :: "string \<Rightarrow> bool" where
  "skip_segment name =
     (name = ''~'' \<or> contains name ''_layout'' \<or> endswith name ''_0000'')"

text \<open>
  Lines 223 to 233. \<open>start_datetime\<close> is the already formatted start of the record.
  \<open>record.fs > 0\<close> raises TypeError on \<open>None\<close>; the inner \<open>try\<close> swallows every
  exception of the offset computation.
\<close>

definition calc_seg_start_time :: "header \<Rightarrow> pyval \<Rightarrow> nat \<Rightarrow> error + pyval" where
  "calc_seg_start_time record start_datetime seg_num =
     (if truthy start_datetime \<and> hasattr (fs record)
      then (case py_gt0 (attr_or_empty PNum (fs record)) of
              Inl e \<Rightarrow> Inl e
            | Inr positive \<Rightarrow>
                if positive \<and> seg_num > 0 \<and> hasattr (seg_len record)
                then (case seg_len record of
                        Val lens \<Rightarrow>
                          (let offset_samples = sum_list (take seg_num lens);
                               offset_seconds =
                                 py_truediv (PInt offset_samples) (attr_or_empty PNum (fs record))
                           in case base_datetime record of
                                Val d \<Rightarrow>
                                  (case plus_seconds (PDatetime d) offset_seconds of
                                     Inr seg_start \<Rightarrow> Inr (PStr (strftime seg_start))
                                   | Inl e \<Rightarrow> Inr (PStr ''''))
                              | _ \<Rightarrow> Inr (PStr ''''))
                      | _ \<Rightarrow> Inr (PStr ''''))
                else Inr (PStr ''''))
      else Inr (PStr ''''))"

text \<open>Lines 235 to 237.\<close>

definition calc_seg_duration :: "header \<Rightarrow> error + pyval" where
  "calc_seg_duration seg_header =
     (case getattr PInt (sig_len seg_header) of
        Inl e \<Rightarrow> Inl e
      | Inr n \<Rightarrow>
          if \<not> truthy n then Inr (PStr '''')
          else (case getattr PNum (fs seg_header) of
                  Inl e \<Rightarrow> Inl e
                | Inr f \<Rightarrow>
                    if \<not> truthy f then Inr (PStr '''')
                    else (case py_gt0 f of
                            Inl e \<Rightarrow> Inl e
                          | Inr positive \<Rightarrow>
                              if positive
                              then (case py_truediv n f of
                                      Inl e \<Rightarrow> Inl e
                                    | Inr q \<Rightarrow> Inr (PNum q))
                              else Inr (PStr ''''))))"

text \<open>Lines 239 to 243: the row of \<open>waveform_segments.csv\<close>, or the exception.\<close>

definition segment_row ::
  "header \<Rightarrow> header \<Rightarrow> string \<Rightarrow> pyval \<Rightarrow> nat \<Rightarrow> string \<Rightarrow> error + pyval list"
where
  "segment_row record seg_header record_name start_datetime seg_num name =
     (case calc_seg_start_time record start_datetime seg_num of
        Inl e \<Rightarrow> Inl e
      | Inr seg_start_time \<Rightarrow>
          (case calc_seg_duration seg_header of
             Inl e \<Rightarrow> Inl e
           | Inr seg_duration \<Rightarrow>
               (case getattr PNum (fs seg_header) of
                  Inl e \<Rightarrow> Inl e
                | Inr seg_fs \<Rightarrow>
                    (case getattr PInt (n_sig seg_header) of
                       Inl e \<Rightarrow> Inl e
                     | Inr seg_n_sig \<Rightarrow>
                         Inr [PStr record_name, PStr name, PInt (int seg_num), seg_start_time,
                              seg_duration, PStr (name @ ''.hea''),
                              (if hasattr (file_name seg_header) then PStr (name @ ''.dat'')
                               else PStr ''''),
                              seg_fs, seg_n_sig]))))"

text \<open>\<open>obj.a[i] if hasattr(obj, 'a') else ''\<close>\<close>

definition attr_index_or_empty :: "pyval list attr \<Rightarrow> nat \<Rightarrow> error + pyval" where
  "attr_index_or_empty a i =
     (case a of
        Absent \<Rightarrow> Inr (PStr '''')
      | PyNone \<Rightarrow> Inl TypeError
      | Val xs \<Rightarrow> index xs i)"

definition signal_row :: "header \<Rightarrow> string \<Rightarrow> nat \<Rightarrow> nat \<Rightarrow> error + pyval list" where
  "signal_row seg_header record_name seg_num sig_idx =
     (case sig_name seg_header of
        Absent \<Rightarrow> Inl AttributeError
      | PyNone \<Rightarrow> Inl TypeError
      | Val names \<Rightarrow>
          (case index names sig_idx of
             Inl e \<Rightarrow> Inl e
           | Inr name \<Rightarrow>
               (case attr_index_or_empty (units seg_header) sig_idx of
                  Inl e \<Rightarrow> Inl e
                | Inr sig_units \<Rightarrow>
                    (case attr_index_or_empty (adc_gain seg_header) sig_idx of
                       Inl e \<Rightarrow> Inl e
                     | Inr sig_gain \<Rightarrow>
                         (case attr_index_or_empty (baseline seg_header) sig_idx of
                            Inl e \<Rightarrow> Inl e
                          | Inr sig_baseline \<Rightarrow>
                              (case attr_index_or_empty (adc_res seg_header) sig_idx of
                                 Inl e \<Rightarrow> Inl e
                               | Inr sig_adc_res \<Rightarrow>
                                   Inr [PStr record_name, PInt (int seg_num), PStr name,
                                        PInt (int sig_idx), sig_units, sig_gain, sig_baseline,
                                        sig_adc_res, PStr '''',
                                        PStr (categorize_signal_type name)]))))))"

text \<open>
  \<open>for sig_idx in range(seg_header.n_sig)\<close>: the rows written before the first
  exception stay in the file.
\<close>

fun signals_loop :: "header \<Rightarrow> string \<Rightarrow> nat \<Rightarrow> nat list \<Rightarrow> pyval list list" where
  "signals_loop seg_header record_name seg_num [] = []"
| "signals_loop seg_header record_name seg_num (sig_idx # rest) =
     (case signal_row seg_header record_name seg_num sig_idx of
        Inl e \<Rightarrow> []
      | Inr row \<Rightarrow> row # signals_loop seg_header record_name seg_num rest)"

definition signal_rows :: "header \<Rightarrow> string \<Rightarrow> nat \<Rightarrow> pyval list list" where
  "signal_rows seg_header record_name seg_num =
     (case n_sig seg_header of
        Val n \<Rightarrow> signals_loop seg_header record_name seg_num [0..<nat n]
      | _ \<Rightarrow> [])"

text \<open>
  The tables of one run: the rows written so far to the four CSV files, the header row
  first.
\<close>

record csv_files =
  records_csv :: "pyval list list"
  segments_csv :: "pyval list list"
  signals_csv :: "pyval list list"
  numerics_csv :: "pyval list list"

text \<open>One iteration of \<open>for seg_num, seg_name in enumerate(record.seg_name)\<close>.\<close>

definition process_segment ::
  "env \<Rightarrow> string \<Rightarrow> header \<Rightarrow> string \<Rightarrow> pyval \<Rightarrow> csv_files \<Rightarrow> nat \<times> string \<Rightarrow> csv_files"
where
  "process_segment e full_path record record_name start_datetime out seg =
     (let seg_num = fst seg; name = snd seg in
      if skip_segment name then out
      else (case rdheader e (full_path @ ''/'' @ name) of
              Inl err \<Rightarrow> out
            | Inr seg_header \<Rightarrow>
                (case segment_row record seg_header record_name start_datetime seg_num name of
                   Inl err \<Rightarrow> out
                 | Inr row \<Rightarrow>
                     out\<lparr>segments_csv := segments_csv out @ [row],
                         signals_csv := signals_csv out
                                          @ signal_rows seg_header record_name seg_num\<rparr>)))"

text \<open>The row one iteration writes to \<open>waveform_segments.csv\<close>, if it writes one.\<close>

definition emitted_segment_row ::
  "env \<Rightarrow> string \<Rightarrow> header \<Rightarrow> string \<Rightarrow> pyval \<Rightarrow> nat \<times> string \<Rightarrow> pyval list option"
where
  "emitted_segment_row e full_path record record_name start_datetime seg =
     (if skip_segment (snd seg) then None
      else (case rdheader e (full_path @ ''/'' @ snd seg) of
              Inl err \<Rightarrow> None
            | Inr seg_header \<Rightarrow>
                (case segment_row record seg_header record_name start_datetime (fst seg)
                        (snd seg) of
                   Inl err \<Rightarrow> None
                 | Inr row \<Rightarrow> Some row)))"

definition process_segments ::
  "env \<Rightarrow> string \<Rightarrow> header \<Rightarrow> string \<Rightarrow> pyval \<Rightarrow> csv_files \<Rightarrow> csv_files"
where
  "process_segments e full_path record record_name start_datetime out =
     (case seg_name record of
        Val names \<Rightarrow>
          foldl (process_segment e full_path record record_name start_datetime) out
            (enumerate 0 names)
      | _ \<Rightarrow> out)"

subsection \<open>Numerics row mapper\<close>

text \<open>The sixteen variables of lines 285 to 289, all initialised to \<open>''\<close>.\<close>

record numerics_slots =
  hr :: pyval
  rr :: pyval
  spo2 :: pyval
  nibp_sys :: pyval
  nibp_dias :: pyval
  nibp_mean :: pyval
  abp_sys :: pyval
  abp_dias :: pyval
  abp_mean :: pyval
  cvp :: pyval
  etco2 :: pyval
  temp :: pyval
  meas_name :: pyval
  meas_val :: pyval
  meas_unit :: pyval

definition empty_slots :: numerics_slots where
  "empty_slots =
     \<lparr>hr = PStr '''', rr = PStr '''', spo2 = PStr '''',
      nibp_sys = PStr '''', nibp_dias = PStr '''', nibp_mean = PStr '''',
      abp_sys = PStr '''', abp_dias = PStr '''', abp_mean = PStr '''',
      cvp = PStr '''', etco2 = PStr '''', temp = PStr '''',
      meas_name = PStr '''', meas_val = PStr '''', meas_unit = PStr ''''\<rparr>"

text \<open>
  One iteration of \<open>for col in df.columns[1:]\<close> (lines 292 to 329) on a column name
  and the row's value in that column.
\<close>

definition column_step :: "numerics_slots \<Rightarrow> string \<times> rat option \<Rightarrow> numerics_slots" where
  "column_step s cv =
     (case snd cv of
        None \<Rightarrow> s
      | Some v \<Rightarrow>
          (let col = fst cv; col_lower = lower col in
           if contains col_lower ''spo2'' \<or> contains col_lower ''sp02''
             then s\<lparr>spo2 := PInt (int_of_float v)\<rparr>
           else if contains col_lower ''hr'' \<and> contains col_lower ''heart''
             then s\<lparr>hr := PInt (int_of_float v)\<rparr>
           else if contains col_lower ''rr'' \<and> contains col_lower ''resp''
             then s\<lparr>rr := PInt (int_of_float v)\<rparr>
           else if contains col_lower ''nibp''
             then (if contains col_lower ''sys'' then s\<lparr>nibp_sys := PInt (int_of_float v)\<rparr>
                   else if contains col_lower ''dias'' then s\<lparr>nibp_dias := PInt (int_of_float v)\<rparr>
                   else if contains col_lower ''mean'' then s\<lparr>nibp_mean := PInt (int_of_float v)\<rparr>
                   else s)
           else if contains col_lower ''abp''
             then (if contains col_lower ''sys'' then s\<lparr>abp_sys := PInt (int_of_float v)\<rparr>
                   else if contains col_lower ''dias'' then s\<lparr>abp_dias := PInt (int_of_float v)\<rparr>
                   else if contains col_lower ''mean'' then s\<lparr>abp_mean := PInt (int_of_float v)\<rparr>
                   else s)
           else if contains col_lower ''cvp'' then s\<lparr>cvp := PNum v\<rparr>
           else if contains col_lower ''etco2'' then s\<lparr>etco2 := PNum v\<rparr>
           else if contains col_lower ''temp'' then s\<lparr>temp := PNum v\<rparr>
           else if \<not> truthy (meas_name s) then s\<lparr>meas_name := PStr col, meas_val := PNum v\<rparr>
           else s))"

text \<open>
  The \<open>if\<close>/\<open>elif\<close> chain of lines 299 to 324 as a list in priority order, each rule
  with the test the code makes on the lower-cased column name, and the first rule
  that matches a column. The tests are those of the code: the two pressure rules
  test \<open>nibp\<close> and \<open>abp\<close> alone, and look for \<open>sys\<close>, \<open>dias\<close>, \<open>mean\<close> only afterwards.
\<close>

definition numerics_rules :: "(string \<times> (string \<Rightarrow> bool)) list" where
  "numerics_rules =
     [(''spo2'', \<lambda>c. contains c ''spo2'' \<or> contains c ''sp02''),
      (''heart_rate'', \<lambda>c. contains c ''hr'' \<and> contains c ''heart''),
      (''resp_rate'', \<lambda>c. contains c ''rr'' \<and> contains c ''resp''),
      (''nibp'', \<lambda>c. contains c ''nibp''),
      (''abp'', \<lambda>c. contains c ''abp''),
      (''cvp'', \<lambda>c. contains c ''cvp''),
      (''etco2'', \<lambda>c. contains c ''etco2''),
      (''temperature'', \<lambda>c. contains c ''temp'')]"

definition first_rule :: "string \<Rightarrow> string option" where
  "first_rule col = map_option fst (find (\<lambda>r. snd r (lower col)) numerics_rules)"

text \<open>
  What the rule found does to the slots: it alone is applied. The two pressure rules
  choose among their three slots by \<open>sys\<close>, \<open>dias\<close>, \<open>mean\<close> and store nothing when the
  name has none of them; a column that no rule matches goes to the generic slot when
  that is still empty.
\<close>

definition apply_rule :: "string option \<Rightarrow> string \<Rightarrow> rat \<Rightarrow> numerics_slots \<Rightarrow> numerics_slots" where
  "apply_rule rule col v s =
     (if rule = Some ''spo2'' then s\<lparr>spo2 := PInt (int_of_float v)\<rparr>
      else if rule = Some ''heart_rate'' then s\<lparr>hr := PInt (int_of_float v)\<rparr>
      else if rule = Some ''resp_rate'' then s\<lparr>rr := PInt (int_of_float v)\<rparr>
      else if rule = Some ''nibp'' then
        (if contains (lower col) ''sys'' then s\<lparr>nibp_sys := PInt (int_of_float v)\<rparr>
         else if contains (lower col) ''dias'' then s\<lparr>nibp_dias := PInt (int_of_float v)\<rparr>
         else if contains (lower col) ''mean'' then s\<lparr>nibp_mean := PInt (int_of_float v)\<rparr>
         else s)
      else if rule = Some ''abp'' then
        (if contains (lower col) ''sys'' then s\<lparr>abp_sys := PInt (int_of_float v)\<rparr>
         else if contains (lower col) ''dias'' then s\<lparr>abp_dias := PInt (int_of_float v)\<rparr>
         else if contains (lower col) ''mean'' then s\<lparr>abp_mean := PInt (int_of_float v)\<rparr>
         else s)
      else if rule = Some ''cvp'' then s\<lparr>cvp := PNum v\<rparr>
      else if rule = Some ''etco2'' then s\<lparr>etco2 := PNum v\<rparr>
      else if rule = Some ''temperature'' then s\<lparr>temp := PNum v\<rparr>
      else if truthy (meas_name s) then s
      else s\<lparr>meas_name := PStr col, meas_val := PNum v\<rparr>)"

text \<open>The columns of a row that have a value and that no rule matches, in column order.\<close>

definition generic_candidates :: "(string \<times> rat option) list \<Rightarrow> (string \<times> rat option) list" where
  "generic_candidates cols =
     filter (\<lambda>cv. snd cv \<noteq> None \<and> first_rule (fst cv) = None) cols"

text \<open>
  The rules as section 4.5 of the specification words them, to compare with: there
  the two pressure rules ask for \<open>nibp\<close> (or \<open>abp\<close>) together with one of \<open>sys\<close>, \<open>dias\<close>,
  \<open>mean\<close>, so a name with \<open>nibp\<close> and none of the three is matched by no stated rule.
\<close>

definition stated_rules :: "(string \<times> (string \<Rightarrow> bool)) list" where
  "stated_rules =
     [(''spo2'', \<lambda>c. contains c ''spo2'' \<or> contains c ''sp02''),
      (''heart_rate'', \<lambda>c. contains c ''hr'' \<and> contains c ''heart''),
      (''resp_rate'', \<lambda>c. contains c ''rr'' \<and> contains c ''resp''),
      (''nibp'', \<lambda>c. contains c ''nibp'' \<and>
                      (contains c ''sys'' \<or> contains c ''dias'' \<or> contains c ''mean'')),
      (''abp'', \<lambda>c. contains c ''abp'' \<and>
                     (contains c ''sys'' \<or> contains c ''dias'' \<or> contains c ''mean'')),
      (''cvp'', \<lambda>c. contains c ''cvp''),
      (''etco2'', \<lambda>c. contains c ''etco2''),
      (''temperature'', \<lambda>c. contains c ''temp'')]"

definition stated_first_rule :: "string \<Rightarrow> string option" where
  "stated_first_rule col = map_option fst (find (\<lambda>r. snd r (lower col)) stated_rules)"

definition map_columns :: "(string \<times> rat option) list \<Rightarrow> numerics_slots" where
  "map_columns cols = foldl column_step empty_slots cols"

text \<open>
  Lines 275 to 282. \<open>record.base_datetime\<close> is read with no \<open>hasattr\<close> guard, outside
  the inner \<open>try\<close>.
\<close>

definition calc_measurement_time :: "header \<Rightarrow> pyval \<Rightarrow> int \<Rightarrow> error + pyval" where
  "calc_measurement_time record base_freq counter_ticks =
     (case base_datetime record of
        Absent \<Rightarrow> Inl AttributeError
      | PyNone \<Rightarrow> Inr (PStr '''')
      | Val d \<Rightarrow>
          if \<not> truthy base_freq then Inr (PStr '''')
          else (case py_gt0 base_freq of
                  Inl e \<Rightarrow> Inl e
                | Inr positive \<Rightarrow>
                    if positive
                    then (case plus_seconds (PDatetime d)
                                 (py_truediv (PInt counter_ticks) base_freq) of
                            Inr meas_time \<Rightarrow> Inr (PStr (strftime meas_time))
                          | Inl e \<Rightarrow> Inr (PStr ''''))
                    else Inr (PStr '''')))"

text \<open>One iteration of \<open>for _, row in df.iterrows()\<close>: the row written, or the exception.\<close>

definition numerics_row ::
  "header \<Rightarrow> string \<Rightarrow> pyval \<Rightarrow> string list \<Rightarrow> rat option list \<Rightarrow> error + pyval list"
where
  "numerics_row record record_name base_freq columns row =
     (case row of
        [] \<Rightarrow> Inl IndexError
      | None # vs \<Rightarrow> Inl ValueError
      | Some t # vs \<Rightarrow>
          (let counter_ticks = int_of_float t in
           case calc_measurement_time record base_freq counter_ticks of
             Inl e \<Rightarrow> Inl e
           | Inr measurement_time \<Rightarrow>
               (let s = map_columns (zip (tl columns) vs) in
                Inr [PStr record_name, measurement_time, PInt counter_ticks, hr s, rr s, spo2 s,
                     nibp_sys s, nibp_dias s, nibp_mean s, abp_sys s, abp_dias s, abp_mean s,
                     cvp s, etco2 s, temp s, meas_name s, meas_val s, meas_unit s])))"

fun numerics_loop ::
  "header \<Rightarrow> string \<Rightarrow> pyval \<Rightarrow> string list \<Rightarrow> rat option list list \<Rightarrow> pyval list list"
where
  "numerics_loop record record_name base_freq columns [] = []"
| "numerics_loop record record_name base_freq columns (row # rest) =
     (case numerics_row record record_name base_freq columns row of
        Inl e \<Rightarrow> []
      | Inr out_row \<Rightarrow> out_row # numerics_loop record record_name base_freq columns rest)"

text \<open>Lines 265 to 338: the rows added to \<open>waveform_numerics.csv\<close> for one record.\<close>

definition numerics_rows :: "env \<Rightarrow> string \<Rightarrow> header \<Rightarrow> string \<Rightarrow> pyval \<Rightarrow> pyval list list" where
  "numerics_rows e full_path record record_name base_freq =
     (case read_numerics e (full_path @ ''/'' @ record_name @ ''n.csv.gz'') of
        None \<Rightarrow> []
      | Some (Inl err) \<Rightarrow> []
      | Some (Inr df) \<Rightarrow>
          (if fst df = [] then []
           else numerics_loop record record_name base_freq (fst df) (snd df)))"

subsection \<open>The loop over the records\<close>

text \<open>
  The body of \<open>for record_path, record_name, subject_id in records\<close> (lines 154 to
  342): every exception is caught by the outer \<open>except\<close>, which goes on to the next
  record; rows already written stay.
\<close>

definition process_record ::
  "env \<Rightarrow> string \<Rightarrow> bool \<Rightarrow> csv_files \<Rightarrow> string \<times> string \<times> int \<Rightarrow> csv_files"
where
  "process_record e data_dir skip_numerics out r =
     (let record_path = fst r; record_name = fst (snd r); subject_id = snd (snd r);
          full_path = data_dir @ ''/'' @ record_path;
          record_file = full_path @ ''/'' @ record_name
      in case rdheader e record_file of
           Inl err \<Rightarrow> out
         | Inr record \<Rightarrow>
             (case record_row record record_path record_name subject_id of
                Inl err \<Rightarrow> out
              | Inr row \<Rightarrow>
                  (let out = out\<lparr>records_csv := records_csv out @ [row]\<rparr>;
                       start_datetime = format_start (attr_or_empty PDatetime (base_datetime record));
                       base_freq = attr_or_empty PNum (fs record);
                       out = process_segments e full_path record record_name start_datetime out
                   in if skip_numerics then out
                      else out\<lparr>numerics_csv := numerics_csv out
                                 @ numerics_rows e full_path record record_name base_freq\<rparr>)))"

text \<open>The rows one record adds to \<open>waveform_segments.csv\<close>, in the order written.\<close>

definition new_segment_rows ::
  "env \<Rightarrow> string \<Rightarrow> bool \<Rightarrow> csv_files \<Rightarrow> string \<times> string \<times> int \<Rightarrow> pyval list list"
where
  "new_segment_rows e data_dir skip_numerics out r =
     drop (length (segments_csv out)) (segments_csv (process_record e data_dir skip_numerics out r))"

definition records_header :: "pyval list" where
  "records_header = map PStr [''record_id'', ''subject_id'', ''hadm_id'', ''start_datetime'',
     ''end_datetime'', ''record_duration_sec'', ''file_path'', ''header_file'',
     ''base_counter_freq'', ''num_segments'']"

definition segments_header :: "pyval list" where
  "segments_header = map PStr [''record_id'', ''segment_name'', ''segment_num'',
     ''segment_start_time'', ''segment_duration_sec'', ''segment_header_file'',
     ''segment_data_file'', ''sampling_frequency'', ''num_signals'']"

definition signals_header :: "pyval list" where
  "signals_header = map PStr [''record_id'', ''segment_num'', ''signal_name'', ''signal_index'',
     ''signal_units'', ''signal_gain'', ''signal_baseline'', ''signal_adc_resolution'',
     ''signal_description'', ''signal_type'']"

definition numerics_header :: "pyval list" where
  "numerics_header = map PStr [''record_id'', ''measurement_time'', ''counter_ticks'',
     ''heart_rate'', ''resp_rate'', ''spo2'', ''nibp_systolic'', ''nibp_diastolic'', ''nibp_mean'',
     ''abp_systolic'', ''abp_diastolic'', ''abp_mean'', ''cvp'', ''etco2'', ''temperature'',
     ''measurement_name'', ''measurement_value'', ''measurement_unit'']"

text \<open>
  The files after the header rows are written; \<open>waveform_numerics.csv\<close> is not opened
  when numerics are skipped (no row at all).
\<close>

definition initial_output :: "bool \<Rightarrow> csv_files" where
  "initial_output skip_numerics =
     \<lparr>records_csv = [records_header], segments_csv = [segments_header],
      signals_csv = [signals_header],
      numerics_csv = (if skip_numerics then [] else [numerics_header])\<rparr>"

definition extract_metadata ::
  "env \<Rightarrow> string \<Rightarrow> (string \<times> string \<times> int) list \<Rightarrow> bool \<Rightarrow> csv_files"
where
  "extract_metadata e data_dir records skip_numerics =
     foldl (process_record e data_dir skip_numerics) (initial_output skip_numerics) records"

text \<open>
  \<open>main\<close>: the root must be a directory and the scan must find a record; an exception
  of the scan is not caught.
\<close>

datatype 'a run = Exit1 string | Raised error | Completed 'a

definition main :: "fs_node option \<Rightarrow> env \<Rightarrow> string \<Rightarrow> bool \<Rightarrow> csv_files run" where
  "main data_root e data_dir skip_numerics =
     (case data_root of
        Some (Dir entries) \<Rightarrow>
          (case find_all_records (Dir entries) of
             Inl err \<Rightarrow> Raised err
           | Inr records \<Rightarrow>
               if records = [] then Exit1 ''Error: No records found in the data directory''
               else Completed (extract_metadata e data_dir records skip_numerics))
      | _ \<Rightarrow> Exit1 ''Error: Data directory not found'')"

section \<open>Records-only updater: \<open>update_records.py\<close>\<close>

text \<open>
  \<open>extract_records_metadata\<close>, translated from \<open>update_records.py\<close> on its own (lines
  99 to 147 for one record).
\<close>

definition upd_comment_step :: "string \<times> int option \<Rightarrow> string \<Rightarrow> string \<times> int option" where
  "upd_comment_step st comment =
     (let hadm_id = fst st;
          subject_id_from_header = snd st;
          hadm_id =
            (if contains (lower comment) ''hadm_id''
             then (case re_search ''hadm_id'' is_space comment of
                     Some g \<Rightarrow> g | None \<Rightarrow> hadm_id)
             else if contains (lower comment) ''hospital admission id''
             then (case re_search ''hospital admission id''
                          (\<lambda>c. c = CHR '':'' \<or> is_space c) comment of
                     Some g \<Rightarrow> g | None \<Rightarrow> hadm_id)
             else hadm_id);
          subject_id_from_header =
            (if contains (lower comment) ''subject_id''
             then (case re_search ''subject_id'' is_space comment of
                     Some g \<Rightarrow> Some (int_of_digits g)
                   | None \<Rightarrow> subject_id_from_header)
             else subject_id_from_header)
      in (hadm_id, subject_id_from_header))"

definition upd_record_row :: "header \<Rightarrow> string \<Rightarrow> string \<Rightarrow> int \<Rightarrow> error + pyval list" where
  "upd_record_row record record_path record_name subject_id0 =
     (case comments record of
        PyNone \<Rightarrow> Inl TypeError
      | cs \<Rightarrow>
          (let ids = foldl upd_comment_step ('''', None) (case cs of Val l \<Rightarrow> l | _ \<Rightarrow> []);
               hadm_id = fst ids;
               subject_id =
                 (case snd ids of
                    Some n \<Rightarrow> if n \<noteq> 0 then n else subject_id0
                  | None \<Rightarrow> subject_id0);
               start_datetime = attr_or_empty PDatetime (base_datetime record);
               duration_sec = attr_or_empty PInt (sig_len record);
               base_freq = attr_or_empty PNum (fs record)
           in case seg_name record of
                PyNone \<Rightarrow> Inl TypeError
              | names \<Rightarrow>
                  (let num_segments = (case names of Val l \<Rightarrow> int (length l) | _ \<Rightarrow> 0);
                       end_datetime =
                         (if truthy start_datetime \<and> truthy duration_sec \<and> truthy base_freq
                          then (case plus_seconds start_datetime
                                       (py_truediv duration_sec base_freq) of
                                  Inr end_dt \<Rightarrow> PStr (strftime end_dt)
                                | Inl err \<Rightarrow> PStr '''')
                          else PStr '''');
                       start_datetime =
                         (case start_datetime of PDatetime d \<Rightarrow> PStr (strftime d) | v \<Rightarrow> v)
                   in Inr [PStr record_name, PInt subject_id, PStr hadm_id, start_datetime,
                           end_datetime, duration_sec, PStr record_path,
                           PStr (record_name @ ''.hea''), base_freq, PInt num_segments])))"

definition upd_process_record ::
  "env \<Rightarrow> string \<Rightarrow> pyval list list \<Rightarrow> string \<times> string \<times> int \<Rightarrow> pyval list list"
where
  "upd_process_record e data_dir csv_file r =
     (let record_path = fst r; record_name = fst (snd r); subject_id = snd (snd r);
          record_file = data_dir @ ''/'' @ record_path @ ''/'' @ record_name
      in case rdheader e record_file of
           Inl err \<Rightarrow> csv_file
         | Inr record \<Rightarrow>
             (case upd_record_row record record_path record_name subject_id of
                Inl err \<Rightarrow> csv_file
              | Inr row \<Rightarrow> csv_file @ [row]))"

definition extract_records_metadata ::
  "env \<Rightarrow> string \<Rightarrow> (string \<times> string \<times> int) list \<Rightarrow> pyval list list"
where
  "extract_records_metadata e data_dir records =
     foldl (upd_process_record e data_dir)
       [map PStr [''record_id'', ''subject_id'', ''hadm_id'', ''start_datetime'',
          ''end_datetime'', ''record_duration_sec'', ''file_path'', ''header_file'',
          ''base_counter_freq'', ''num_segments'']]
       records"

definition upd_main :: "fs_node option \<Rightarrow> env \<Rightarrow> string \<Rightarrow> pyval list list run" where
  "upd_main data_root e data_dir =
     (case data_root of
        Some (Dir entries) \<Rightarrow>
          (case find_all_records (Dir entries) of
             Inl err \<Rightarrow> Raised err
           | Inr records \<Rightarrow>
               if records = [] then Exit1 ''Error: No records found in the data directory''
               else Completed (extract_records_metadata e data_dir records))
      | _ \<Rightarrow> Exit1 ''Error: Data directory not found'')"

section \<open>An example corpus\<close>

text \<open>
  Three records of one subject. The header of the first cannot be read. The second has
  four segments, the first and third of them layout segments, and a numerics file.
  The third has two segments and no layout segment.
\<close>

definition example_record_header :: header where
  "example_record_header =
     no_header\<lparr>comments := Val [''subject_id 10014354'', ''hadm_id 24748044''],
               base_datetime := Val new_year_2023, sig_len := Val 3600, fs := Val 1,
               seg_name := Val [''~'', ''seg1'', ''rec_0000'', ''seg2''],
               seg_len := Val [600, 1200, 0, 1800]\<rparr>"

definition plain_record_header :: header where
  "plain_record_header =
     no_header\<lparr>comments := Val [], base_datetime := Val new_year_2023, sig_len := Val 3000,
               fs := Val 1, seg_name := Val [''s0'', ''s1''], seg_len := Val [1200, 1800]\<rparr>"

definition example_segment_header :: "int \<Rightarrow> header" where
  "example_segment_header n =
     no_header\<lparr>sig_len := Val n, fs := Val 1, n_sig := Val 2,
               sig_name := Val [''II'', ''Pleth''], units := Val [PStr ''mV'', PStr ''NU''],
               adc_gain := Val [PNum 200, PNum 4096], baseline := Val [PInt 0, PInt 0],
               adc_res := Val [PInt 12, PInt 12], file_name := Val [PStr ''seg.dat'']\<rparr>"

definition example_env :: env where
  "example_env =
     \<lparr>rdheader = (\<lambda>path.
        if path = ''/data/p100/p10014354/83411188/83411188'' then Inr example_record_header
        else if path = ''/data/p100/p10014354/83411188/seg1''
          then Inr (example_segment_header 1200)
        else if path = ''/data/p100/p10014354/83411188/seg2''
          then Inr (example_segment_header 1800)
        else if path = ''/data/p100/p10014354/85583557/85583557'' then Inr plain_record_header
        else if path = ''/data/p100/p10014354/85583557/s0''
          then Inr (example_segment_header 1200)
        else if path = ''/data/p100/p10014354/85583557/s1''
          then Inr (example_segment_header 1800)
        else Inl ReadError),
      read_numerics = (\<lambda>path.
        if path = ''/data/p100/p10014354/83411188/83411188n.csv.gz''
        then Some (Inr ([''time'', ''HR'', ''SpO2'', ''UnknownMetric''],
                        [[Some 0, Some 80, Some 97, Some 5],
                         [Some 60, Some 82, None, None]]))
        else None)\<rparr>"

definition unreadable_record :: "string \<times> string \<times> int" where
  "unreadable_record = (''p100/p10014354/81739927'', ''81739927'', 10014354)"

definition readable_record :: "string \<times> string \<times> int" where
  "readable_record = (''p100/p10014354/83411188'', ''83411188'', 10014354)"

definition plain_record :: "string \<times> string \<times> int" where
  "plain_record = (''p100/p10014354/85583557'', ''85583557'', 10014354)"

section \<open>Properties of the string functions\<close>

lemma contains_append: "contains (xs @ p @ ys) p"
proof (induction xs)
  case Nil
  have "startswith (p @ ys) p" by (simp add: startswith_def)
  then show ?case by (cases "p @ ys") simp_all
next
  case (Cons x xs)
  then show ?case by simp
qed

lemma contains_decomp: "contains s p \<Longrightarrow> \<exists>xs ys. s = xs @ p @ ys"
proof (induction s)
  case Nil
  then show ?case by simp
next
  case (Cons c cs)
  from Cons.prems have "startswith (c # cs) p \<or> contains cs p" by simp
  then show ?case
  proof
    assume "startswith (c # cs) p"
    then have "c # cs = [] @ p @ drop (length p) (c # cs)"
      unfolding startswith_def by (metis append_Nil append_take_drop_id)
    then show ?thesis by blast
  next
    assume "contains cs p"
    with Cons.IH obtain xs ys where "cs = xs @ p @ ys" by blast
    then have "c # cs = (c # xs) @ p @ ys" by simp
    then show ?thesis by blast
  qed
qed

lemma contains_iff: "contains s p \<longleftrightarrow> (\<exists>xs ys. s = xs @ p @ ys)"
  using contains_append contains_decomp by blast

lemma contains_trans: "contains s p \<Longrightarrow> contains p q \<Longrightarrow> contains s q"
proof -
  assume "contains s p" and "contains p q"
  then obtain a b c d where "s = a @ p @ b" and "p = c @ q @ d"
    unfolding contains_iff by blast
  then have "s = (a @ c) @ q @ (d @ b)" by simp
  then show ?thesis unfolding contains_iff by blast
qed

section \<open>Properties of the signal classifier\<close>

lemma contains_P_is_pressure:
  "contains u ''P'' \<Longrightarrow> list_ex (\<lambda>pressure. contains u pressure) pressure_types"
  by (simp add: pressure_types_def)

text \<open>
  C1, the code at the claim's six labels. \<open>II\<close>, \<open>ABP\<close>, \<open>CO2\<close> and \<open>XYZ\<close> are
  classified as the claim says. \<open>PLETH\<close> and \<open>RESP\<close> both contain the pressure code
  \<open>P\<close>, which the Pressure rule matches by substring before the Plethysmogram and
  Respiration rules are reached: both come out as Pressure.
\<close>

theorem categorize_signal_type_examples:
  "categorize_signal_type ''II'' = ''ECG'' \<and>
   categorize_signal_type ''ABP'' = ''Pressure'' \<and>
   categorize_signal_type ''PLETH'' = ''Pressure'' \<and>
   categorize_signal_type ''RESP'' = ''Pressure'' \<and>
   categorize_signal_type ''CO2'' = ''Capnography'' \<and>
   categorize_signal_type ''XYZ'' = ''Other''"
  by code_simp

text \<open>
  The Plethysmogram and Respiration branches are unreachable for every label: a label
  that contains \<open>PLETH\<close> or \<open>RESP\<close> contains \<open>P\<close>.
\<close>

lemma categorize_signal_type_never_pleth_resp:
  "categorize_signal_type s \<noteq> ''Plethysmogram'' \<and> categorize_signal_type s \<noteq> ''Respiration''"
proof -
  have p1: "contains ''PLETH'' ''P''" and p2: "contains ''RESP'' ''P''"
    by (simp_all add: startswith_def)
  have "contains (upper s) ''PLETH'' \<Longrightarrow> contains (upper s) ''P''"
    using p1 contains_trans by blast
  moreover have "contains (upper s) ''RESP'' \<Longrightarrow> contains (upper s) ''P''"
    using p2 contains_trans by blast
  ultimately show ?thesis
    unfolding categorize_signal_type_def Let_def
    using contains_P_is_pressure [of "upper s"] by auto
qed

section \<open>Properties of the identity resolver and of the record row\<close>

lemma fst_comment_step:
  "fst (comment_step st c) = (case comment_hadm_match c of Some g \<Rightarrow> g | None \<Rightarrow> fst st)"
  by (simp add: comment_step_def comment_hadm_match_def Let_def)

lemma snd_comment_step:
  "snd (comment_step st c) = (case comment_subject_match c of Some n \<Rightarrow> Some n | None \<Rightarrow> snd st)"
  by (simp add: comment_step_def comment_subject_match_def Let_def split: option.splits)

lemma fst_foldl_comment_step_none:
  "list_all (\<lambda>d. comment_hadm_match d = None) post \<Longrightarrow>
   fst (foldl comment_step st post) = fst st"
  by (induction post arbitrary: st) (simp_all add: fst_comment_step)

lemma snd_foldl_comment_step_none:
  "list_all (\<lambda>d. comment_subject_match d = None) post \<Longrightarrow>
   snd (foldl comment_step st post) = snd st"
  by (induction post arbitrary: st) (simp_all add: snd_comment_step)

lemma hadm_last_match:
  assumes "comment_hadm_match c = Some g"
      and "list_all (\<lambda>d. comment_hadm_match d = None) post"
  shows "fst (foldl comment_step st (pre @ c # post)) = g"
  using assms by (simp add: fst_foldl_comment_step_none fst_comment_step)

lemma upd_comment_step_eq: "upd_comment_step = comment_step"
  unfolding upd_comment_step_def comment_step_def re_hadm_id_def
      re_hospital_admission_id_def re_subject_id_def by (rule refl)

lemma record_row_eq:
  assumes "comments record \<noteq> PyNone" and "seg_name record \<noteq> PyNone"
  shows "record_row record record_path record_name subject_id =
     Inr [PStr record_name,
          PInt (choose_subject_id (snd (foldl comment_step ('''', None) (comment_list record))) subject_id),
          PStr (fst (foldl comment_step ('''', None) (comment_list record))),
          format_start (attr_or_empty PDatetime (base_datetime record)),
          calc_end_datetime (attr_or_empty PDatetime (base_datetime record))
             (attr_or_empty PInt (sig_len record)) (attr_or_empty PNum (fs record)),
          attr_or_empty PInt (sig_len record), PStr record_path,
          PStr (record_name @ ''.hea''), attr_or_empty PNum (fs record),
          PInt (case seg_name record of Val names \<Rightarrow> int (length names) | _ \<Rightarrow> 0)]"
  using assms
  by (cases "comments record"; cases "seg_name record")
     (simp_all add: record_row_def scan_comments_def num_segments_of_def comment_list_def Let_def)

lemma record_row_fails:
  "comments record = PyNone \<or> seg_name record = PyNone \<Longrightarrow>
   \<exists>err. record_row record record_path record_name subject_id = Inl err"
  by (cases "comments record"; cases "seg_name record")
     (auto simp add: record_row_def scan_comments_def num_segments_of_def Let_def)

lemma upd_record_row_eq:
  "upd_record_row record record_path record_name subject_id =
   record_row record record_path record_name subject_id"
  by (cases "comments record"; cases "seg_name record")
     (simp_all add: upd_record_row_def record_row_def scan_comments_def num_segments_of_def
        upd_comment_step_eq choose_subject_id_def calc_end_datetime_def format_start_def Let_def)

lemma re_search_contains: "re_search lit sep s = Some g \<Longrightarrow> contains (lower s) lit"
proof (induction s)
  case Nil
  then show ?case
    by (simp add: match_at_def lower_def startswith_def split: if_splits)
next
  case (Cons c cs)
  show ?case
  proof (cases "match_at lit sep (c # cs)")
    case (Some m)
    then have "startswith (lower (c # cs)) lit"
      by (simp add: match_at_def split: if_splits)
    then show ?thesis by (simp add: lower_def)
  next
    case None
    with Cons.prems have "re_search lit sep cs = Some g" by simp
    from Cons.IH [OF this] show ?thesis by (simp add: lower_def)
  qed
qed

lemma comment_hadm_match_Some:
  assumes "re_hadm_id c = Some g \<or>
           (\<not> contains (lower c) ''hadm_id'' \<and> re_hospital_admission_id c = Some g)"
  shows "comment_hadm_match c = Some g"
  using assms
proof
  assume m: "re_hadm_id c = Some g"
  then have "contains (lower c) ''hadm_id''"
    unfolding re_hadm_id_def by (rule re_search_contains)
  with m show ?thesis by (simp add: comment_hadm_match_def)
next
  assume m: "\<not> contains (lower c) ''hadm_id'' \<and> re_hospital_admission_id c = Some g"
  then have "contains (lower c) ''hospital admission id''"
    unfolding re_hospital_admission_id_def using re_search_contains by blast
  with m show ?thesis by (simp add: comment_hadm_match_def)
qed

lemma comment_hadm_match_None:
  assumes "re_hadm_id d = None \<and>
           (contains (lower d) ''hadm_id'' \<or> re_hospital_admission_id d = None)"
  shows "comment_hadm_match d = None"
  using assms by (auto simp add: comment_hadm_match_def)

text \<open>
  C3 as the code has it. The \<open>hadm_id\<close> of the record row is the capture of the last
  comment, in comment order, on which the test of the code succeeds: a comment that
  matches \<open>hadm_id\s+(\d+)\<close>, or a comment that does not contain \<open>hadm_id\<close> and matches
  \<open>hospital admission id[:\s]+(\d+)\<close>. Such a comment overwrites whatever the comments
  before it (\<open>pre\<close>, arbitrary) set, whichever form they matched. The comments after it
  (\<open>post\<close>) set nothing: none matches the first pattern, and each either contains
  \<open>hadm_id\<close> or does not match the second. Both scripts behave so.
\<close>

theorem hadm_id_last_match_wins:
  assumes "comments record = Val (pre @ c # post)"
      and "re_hadm_id c = Some g \<or>
           (\<not> contains (lower c) ''hadm_id'' \<and> re_hospital_admission_id c = Some g)"
      and "list_all (\<lambda>d. re_hadm_id d = None \<and>
                        (contains (lower d) ''hadm_id'' \<or> re_hospital_admission_id d = None)) post"
      and "seg_name record \<noteq> PyNone"
  shows "(\<exists>row. record_row record record_path record_name subject_id = Inr row
              \<and> row ! 2 = PStr g) \<and>
         (\<exists>row. upd_record_row record record_path record_name subject_id = Inr row
              \<and> row ! 2 = PStr g)"
proof -
  have c: "comments record \<noteq> PyNone" using assms(1) by simp
  have l: "comment_list record = pre @ c # post" using assms(1) by (simp add: comment_list_def)
  have m: "comment_hadm_match c = Some g"
    using assms(2) by (rule comment_hadm_match_Some)
  have n: "list_all (\<lambda>d. comment_hadm_match d = None) post"
    using assms(3) by (simp add: list_all_iff comment_hadm_match_None)
  have "fst (foldl comment_step ('''', None) (comment_list record)) = g"
    unfolding l using m n by (rule hadm_last_match)
  then show ?thesis
    by (simp add: upd_record_row_eq record_row_eq [OF c assms(4)])
qed

theorem hadm_id_last_match_wins_witness:
  "re_hadm_id ''hadm_id 111'' = Some ''111'' \<and>
   re_hadm_id ''Hospital Admission ID: 222'' = None \<and>
   contains (lower ''Hospital Admission ID: 222'') ''hadm_id'' = False \<and>
   re_hospital_admission_id ''Hospital Admission ID: 222'' = Some ''222'' \<and>
   re_hadm_id ''note'' = None \<and> re_hospital_admission_id ''note'' = None \<and>
   (\<exists>row. record_row (no_header\<lparr>comments :=
              Val [''hadm_id 111'', ''Hospital Admission ID: 222'', ''note'']\<rparr>)
            ''p100/p10014354/81739927'' ''81739927'' 10014354 = Inr row
          \<and> row ! 2 = PStr ''222'') \<and>
   (\<exists>row. upd_record_row (no_header\<lparr>comments :=
              Val [''hadm_id 111'', ''Hospital Admission ID: 222'', ''note'']\<rparr>)
            ''p100/p10014354/81739927'' ''81739927'' 10014354 = Inr row
          \<and> row ! 2 = PStr ''222'')"
proof -
  let ?r = "no_header\<lparr>comments :=
              Val [''hadm_id 111'', ''Hospital Admission ID: 222'', ''note'']\<rparr>"
  have h1: "comments ?r = Val ([''hadm_id 111''] @ ''Hospital Admission ID: 222'' # [''note''])"
    by simp
  have a0: "re_hadm_id ''hadm_id 111'' = Some ''111''" by code_simp
  have a1: "re_hadm_id ''Hospital Admission ID: 222'' = None" by code_simp
  have a2: "contains (lower ''Hospital Admission ID: 222'') ''hadm_id'' = False" by code_simp
  have a3: "re_hospital_admission_id ''Hospital Admission ID: 222'' = Some ''222''" by code_simp
  have a4: "re_hadm_id ''note'' = None" by code_simp
  have a5: "re_hospital_admission_id ''note'' = None" by code_simp
  have h2: "re_hadm_id ''Hospital Admission ID: 222'' = Some ''222'' \<or>
      (\<not> contains (lower ''Hospital Admission ID: 222'') ''hadm_id'' \<and>
       re_hospital_admission_id ''Hospital Admission ID: 222'' = Some ''222'')"
    using a2 a3 by simp
  have h3: "list_all (\<lambda>d. re_hadm_id d = None \<and>
      (contains (lower d) ''hadm_id'' \<or> re_hospital_admission_id d = None)) [''note'']"
    using a4 a5 by simp
  have h4: "seg_name ?r \<noteq> PyNone" by (simp add: no_header_def)
  note t = hadm_id_last_match_wins [OF h1 h2 h3 h4,
      of "''p100/p10014354/81739927''" "''81739927''" 10014354]
  show ?thesis
    by (intro conjI) (rule a0 a1 a2 a3 a4 a5 t [THEN conjunct1] t [THEN conjunct2])+
qed

text \<open>
  The claim fails when the last comment that matches an admission-id pattern
  contains \<open>hadm_id\<close> without matching the first pattern: the comment
  \<open>Hospital Admission ID: 222 (hadm_id)\<close> matches the hospital-admission-id pattern with
  capture 222 and is the last comment, yet both scripts keep 111, the capture of the
  earlier comment, because the second pattern is under \<open>elif\<close> and is not tried.
\<close>

theorem hadm_id_elif_counterexample:
  "re_hadm_id ''hadm_id 111'' = Some ''111'' \<and>
   re_hospital_admission_id ''Hospital Admission ID: 222 (hadm_id)'' = Some ''222'' \<and>
   record_row (no_header\<lparr>comments :=
        Val [''hadm_id 111'', ''Hospital Admission ID: 222 (hadm_id)'']\<rparr>)
      ''p100/p10014354/81739927'' ''81739927'' 10014354 =
     Inr [PStr ''81739927'', PInt 10014354, PStr ''111'', PStr '''', PStr '''', PStr '''',
          PStr ''p100/p10014354/81739927'', PStr ''81739927.hea'', PStr '''', PInt 0] \<and>
   upd_record_row (no_header\<lparr>comments :=
        Val [''hadm_id 111'', ''Hospital Admission ID: 222 (hadm_id)'']\<rparr>)
      ''p100/p10014354/81739927'' ''81739927'' 10014354 =
     Inr [PStr ''81739927'', PInt 10014354, PStr ''111'', PStr '''', PStr '''', PStr '''',
          PStr ''p100/p10014354/81739927'', PStr ''81739927.hea'', PStr '''', PInt 0]"
  by code_simp

section \<open>Properties of the loop over the records\<close>

lemma process_segment_frame:
  "records_csv (process_segment e fp record rn sd out seg) = records_csv out \<and>
   numerics_csv (process_segment e fp record rn sd out seg) = numerics_csv out"
  by (simp add: process_segment_def Let_def split: sum.splits)

lemma foldl_process_segment_frame:
  "records_csv (foldl (process_segment e fp record rn sd) out segs) = records_csv out \<and>
   numerics_csv (foldl (process_segment e fp record rn sd) out segs) = numerics_csv out"
  by (induction segs arbitrary: out) (simp_all add: process_segment_frame)

lemma process_segments_frame:
  "records_csv (process_segments e fp record rn sd out) = records_csv out \<and>
   numerics_csv (process_segments e fp record rn sd out) = numerics_csv out"
  by (simp add: process_segments_def foldl_process_segment_frame split: attr.splits)

lemma records_csv_process_record:
  "records_csv (process_record e data_dir skip_numerics out (record_path, record_name, subject_id)) =
   records_csv out @
     (case rdheader e (data_dir @ ''/'' @ record_path @ ''/'' @ record_name) of
        Inl err \<Rightarrow> []
      | Inr record \<Rightarrow>
          (case record_row record record_path record_name subject_id of
             Inl err \<Rightarrow> []
           | Inr row \<Rightarrow> [row]))"
  by (simp add: process_record_def Let_def process_segments_frame split: sum.splits)

lemma upd_process_record_eq:
  "upd_process_record e data_dir csv_file (record_path, record_name, subject_id) =
   csv_file @
     (case rdheader e (data_dir @ ''/'' @ record_path @ ''/'' @ record_name) of
        Inl err \<Rightarrow> []
      | Inr record \<Rightarrow>
          (case record_row record record_path record_name subject_id of
             Inl err \<Rightarrow> []
           | Inr row \<Rightarrow> [row]))"
  by (simp add: upd_process_record_def Let_def upd_record_row_eq split: sum.splits)

lemma process_record_unreadable:
  "rdheader e (data_dir @ ''/'' @ fst r @ ''/'' @ fst (snd r)) = Inl err \<Longrightarrow>
   process_record e data_dir skip_numerics out r = out"
  by (simp add: process_record_def Let_def)

lemma records_csv_foldl:
  "records_csv (foldl (process_record e data_dir skip_numerics) out records) =
   foldl (upd_process_record e data_dir) (records_csv out) records"
proof (induction records arbitrary: out)
  case Nil
  show ?case by simp
next
  case (Cons r rs)
  obtain record_path record_name subject_id where r: "r = (record_path, record_name, subject_id)"
    by (cases r) auto
  show ?case
    by (simp add: Cons.IH r records_csv_process_record upd_process_record_eq)
qed

text \<open>
  C10. On the same list of discovered records and the same headers, the table the full
  extractor writes to \<open>waveform_records.csv\<close> is the table the records-only updater
  writes: the same rows (header row included) in the same order, whether or not
  numerics are skipped. Both \<open>main\<close> functions run the same scan and the same two
  checks before, so the whole runs agree as well.
\<close>

theorem update_records_same_rows:
  "records_csv (extract_metadata e data_dir records skip_numerics) =
     extract_records_metadata e data_dir records \<and>
   map_run records_csv (main data_root e data_dir skip_numerics) = upd_main data_root e data_dir"
proof -
  have rows: "records_csv (extract_metadata e data_dir rs skip_numerics) =
      extract_records_metadata e data_dir rs" for rs
    by (simp add: extract_metadata_def extract_records_metadata_def records_csv_foldl
        initial_output_def records_header_def)
  have "map_run records_csv (main data_root e data_dir skip_numerics) =
      upd_main data_root e data_dir"
    by (simp add: main_def upd_main_def rows split: option.splits fs_node.splits sum.splits)
  with rows show ?thesis by simp
qed

text \<open>
  C9. A record whose header read raises leaves all four tables as they were, and the
  run over a list of records is the run over the list without that record: the
  records before and after it are processed as if it were not there.
\<close>

theorem unreadable_record_skipped:
  assumes "rdheader e (data_dir @ ''/'' @ fst r @ ''/'' @ fst (snd r)) = Inl err"
  shows "process_record e data_dir skip_numerics out r = out \<and>
         extract_metadata e data_dir (before @ r # after) skip_numerics =
           extract_metadata e data_dir (before @ after) skip_numerics"
  using assms by (simp add: extract_metadata_def process_record_unreadable)

theorem unreadable_record_skipped_witness:
  "rdheader example_env (''/data'' @ ''/'' @ fst unreadable_record @ ''/''
       @ fst (snd unreadable_record)) = Inl ReadError \<and>
   process_record example_env ''/data'' False (initial_output False) unreadable_record =
     initial_output False \<and>
   extract_metadata example_env ''/data'' ([] @ unreadable_record # [readable_record]) False =
     extract_metadata example_env ''/data'' ([] @ [readable_record]) False \<and>
   length (records_csv (extract_metadata example_env ''/data''
       [unreadable_record, readable_record] False)) = 2 \<and>
   length (segments_csv (extract_metadata example_env ''/data''
       [unreadable_record, readable_record] False)) = 3 \<and>
   length (signals_csv (extract_metadata example_env ''/data''
       [unreadable_record, readable_record] False)) = 5 \<and>
   length (numerics_csv (extract_metadata example_env ''/data''
       [unreadable_record, readable_record] False)) = 3"
proof -
  have h: "rdheader example_env (''/data'' @ ''/'' @ fst unreadable_record @ ''/''
       @ fst (snd unreadable_record)) = Inl ReadError"
    by (simp add: example_env_def unreadable_record_def)
  have l1: "length (records_csv (extract_metadata example_env ''/data''
       [unreadable_record, readable_record] False)) = 2" by code_simp
  have l2: "length (segments_csv (extract_metadata example_env ''/data''
       [unreadable_record, readable_record] False)) = 3" by code_simp
  have l3: "length (signals_csv (extract_metadata example_env ''/data''
       [unreadable_record, readable_record] False)) = 5" by code_simp
  have l4: "length (numerics_csv (extract_metadata example_env ''/data''
       [unreadable_record, readable_record] False)) = 3" by code_simp
  show ?thesis
    using unreadable_record_skipped [OF h, of False "initial_output False" "[]" "[readable_record]"]
      h l1 l2 l3 l4 by blast
qed

text \<open>
  C5, the code at a header comment \<open>subject_id 0\<close>: the pattern matches and captures
  the integer 0, and the row still carries the subject id of the directory, since
  \<open>if subject_id_from_header:\<close> is false for 0.
\<close>

theorem subject_id_zero_not_used:
  "comment_subject_match ''subject_id 0'' = Some 0 \<and>
   record_row (no_header\<lparr>comments := Val [''subject_id 0'']\<rparr>)
       ''p100/p10014354/81739927'' ''81739927'' 10014354 =
     Inr [PStr ''81739927'', PInt 10014354, PStr '''', PStr '''', PStr '''', PStr '''',
          PStr ''p100/p10014354/81739927'', PStr ''81739927.hea'', PStr '''', PInt 0]"
  by code_simp

text \<open>
  In general the \<open>subject_id\<close> cell is decided by the last comment that matches: its
  integer when that is not 0, the subject id of the path otherwise.
\<close>

lemma subject_id_cell:
  assumes "comments record \<noteq> PyNone" and "seg_name record \<noteq> PyNone"
  shows "\<exists>row. record_row record record_path record_name subject_id = Inr row \<and>
     row ! 1 = PInt (choose_subject_id
        (snd (foldl comment_step ('''', None) (comment_list record))) subject_id)"
  by (simp add: record_row_eq [OF assms])

lemma subject_last_match:
  assumes "comment_subject_match c = Some n"
      and "list_all (\<lambda>d. comment_subject_match d = None) post"
  shows "snd (foldl comment_step st (pre @ c # post)) = Some n"
  using assms by (simp add: snd_foldl_comment_step_none snd_comment_step)

lemma subject_no_match:
  "list_all (\<lambda>d. comment_subject_match d = None) cs \<Longrightarrow>
   snd (foldl comment_step ('''', None) cs) = None"
  by (simp add: snd_foldl_comment_step_none)

lemma calc_end_datetime_Val:
  "calc_end_datetime (PDatetime d) (PInt n) (PNum f) =
     (if n \<noteq> 0 \<and> f \<noteq> 0
      then (case add_seconds d (of_int n / f) of
              Inr end_dt \<Rightarrow> PStr (strftime end_dt) | Inl err \<Rightarrow> PStr '''')
      else PStr '''')"
  by (simp add: calc_end_datetime_def plus_seconds_def py_truediv_def)

lemma calc_end_datetime_absent:
  "\<not> truthy s \<or> \<not> truthy n \<or> \<not> truthy f \<Longrightarrow> calc_end_datetime s n f = PStr ''''"
  by (auto simp add: calc_end_datetime_def)

lemma end_datetime_cell:
  "calc_end_datetime (attr_or_empty PDatetime (base_datetime record))
     (attr_or_empty PInt (sig_len record)) (attr_or_empty PNum (fs record)) =
   expected_end_datetime record"
  by (cases "base_datetime record"; cases "sig_len record"; cases "fs record")
     (simp_all add: expected_end_datetime_def calc_end_datetime_Val calc_end_datetime_absent)

text \<open>
  C6 as the code has it. A record whose header is read, with comments and segment
  names that are not \<open>None\<close>, gets its row in both scripts. The \<open>end_datetime\<close> cell is
  the base timestamp plus \<open>sig_len / fs\<close> seconds, formatted, when the three attributes
  are present, \<open>sig_len\<close> is not 0 and \<open>fs\<close> is not 0; it is the empty field when that
  sum leaves the range of \<open>datetime\<close>, when one of the three is missing or \<open>None\<close>, and
  when \<open>sig_len\<close> or \<open>fs\<close> is 0.
\<close>

theorem end_datetime_of_record:
  assumes "rdheader e (data_dir @ ''/'' @ record_path @ ''/'' @ record_name) = Inr record"
      and "comments record \<noteq> PyNone" and "seg_name record \<noteq> PyNone"
  shows "\<exists>row.
      records_csv (process_record e data_dir skip_numerics out
                     (record_path, record_name, subject_id)) = records_csv out @ [row] \<and>
      upd_process_record e data_dir (records_csv out) (record_path, record_name, subject_id) =
        records_csv out @ [row] \<and>
      row ! 4 =
        (case (base_datetime record, sig_len record, fs record) of
           (Val d, Val n, Val f) \<Rightarrow>
             if n \<noteq> 0 \<and> f \<noteq> 0
             then (case add_seconds d (of_int n / f) of
                     Inr end_dt \<Rightarrow> PStr (strftime end_dt) | Inl err \<Rightarrow> PStr '''')
             else PStr ''''
         | _ \<Rightarrow> PStr '''')"
  using assms
  by (simp add: records_csv_process_record upd_process_record_eq record_row_eq
      end_datetime_cell expected_end_datetime_def)

theorem end_datetime_of_record_witness:
  "rdheader example_env (''/data'' @ ''/'' @ ''p100/p10014354/83411188'' @ ''/'' @ ''83411188'')
     = Inr example_record_header \<and>
   comments example_record_header \<noteq> PyNone \<and> seg_name example_record_header \<noteq> PyNone \<and>
   base_datetime example_record_header = Val new_year_2023 \<and>
   sig_len example_record_header = Val 3600 \<and> fs example_record_header = Val 1 \<and>
   (\<exists>row.
      records_csv (process_record example_env ''/data'' False (initial_output False)
                     (''p100/p10014354/83411188'', ''83411188'', 10014354)) =
        records_csv (initial_output False) @ [row] \<and>
      upd_process_record example_env ''/data'' (records_csv (initial_output False))
          (''p100/p10014354/83411188'', ''83411188'', 10014354) =
        records_csv (initial_output False) @ [row] \<and>
      row ! 4 = PStr ''2023-01-01 01:00:00'')"
proof -
  have h1: "rdheader example_env
      (''/data'' @ ''/'' @ ''p100/p10014354/83411188'' @ ''/'' @ ''83411188'')
     = Inr example_record_header"
    by (simp add: example_env_def)
  have h2: "comments example_record_header \<noteq> PyNone"
    and h3: "seg_name example_record_header \<noteq> PyNone"
    and a: "base_datetime example_record_header = Val new_year_2023"
           "sig_len example_record_header = Val 3600" "fs example_record_header = Val 1"
    by (simp_all add: example_record_header_def no_header_def)
  have v: "(case add_seconds new_year_2023 (of_int 3600 / 1) of
              Inr end_dt \<Rightarrow> PStr (strftime end_dt) | Inl err \<Rightarrow> PStr '''')
           = PStr ''2023-01-01 01:00:00''"
    by code_simp
  obtain row where r:
    "records_csv (process_record example_env ''/data'' False (initial_output False)
                     (''p100/p10014354/83411188'', ''83411188'', 10014354)) =
        records_csv (initial_output False) @ [row]"
    "upd_process_record example_env ''/data'' (records_csv (initial_output False))
          (''p100/p10014354/83411188'', ''83411188'', 10014354) =
        records_csv (initial_output False) @ [row]"
    "row ! 4 =
        (case (base_datetime example_record_header, sig_len example_record_header,
               fs example_record_header) of
           (Val d, Val n, Val f) \<Rightarrow>
             if n \<noteq> 0 \<and> f \<noteq> 0
             then (case add_seconds d (of_int n / f) of
                     Inr end_dt \<Rightarrow> PStr (strftime end_dt) | Inl err \<Rightarrow> PStr '''')
             else PStr ''''
         | _ \<Rightarrow> PStr '''')"
    using end_datetime_of_record [OF h1 h2 h3, of False "initial_output False" 10014354]
    by blast
  have "row ! 4 = PStr ''2023-01-01 01:00:00''"
    using r(3) v unfolding a by simp
  with r(1,2) h1 h2 h3 a show ?thesis by blast
qed

text \<open>
  The claim fails for a record of zero samples: base timestamp, duration and frequency
  are all present and the frequency is 1, yet \<open>end_datetime\<close> is empty, where the base
  plus \<open>0 / 1\<close> seconds is 2023-01-01 00:00:00.
\<close>

theorem end_datetime_zero_duration_counterexample:
  "record_row (no_header\<lparr>base_datetime := Val new_year_2023, sig_len := Val 0, fs := Val 1\<rparr>)
       ''p100/p10014354/81739927'' ''81739927'' 10014354 =
     Inr [PStr ''81739927'', PInt 10014354, PStr '''', PStr ''2023-01-01 00:00:00'', PStr '''',
          PInt 0, PStr ''p100/p10014354/81739927'', PStr ''81739927.hea'', PNum 1, PInt 0] \<and>
   map_sum id strftime (add_seconds new_year_2023 (of_int 0 / 1)) = Inr ''2023-01-01 00:00:00''"
  by code_simp

section \<open>Properties of the segment rows\<close>

lemma segments_csv_process_segment:
  "segments_csv (process_segment e fp record rn sd out seg) =
   segments_csv out @ (case emitted_segment_row e fp record rn sd seg of
                         Some row \<Rightarrow> [row] | None \<Rightarrow> [])"
  by (simp add: process_segment_def emitted_segment_row_def Let_def split: sum.splits)

lemma segments_csv_foldl:
  "segments_csv (foldl (process_segment e fp record rn sd) out segs) =
   segments_csv out @ List.map_filter (emitted_segment_row e fp record rn sd) segs"
proof (induction segs arbitrary: out)
  case Nil
  show ?case by (simp add: List.map_filter_simps)
next
  case (Cons seg segs)
  show ?case
    by (simp add: Cons.IH segments_csv_process_segment List.map_filter_simps
        split: option.splits)
qed

lemma segments_csv_process_segments:
  "segments_csv (process_segments e fp record rn sd out) =
   segments_csv out @
     (case seg_name record of
        Val names \<Rightarrow> List.map_filter (emitted_segment_row e fp record rn sd) (enumerate 0 names)
      | _ \<Rightarrow> [])"
  by (simp add: process_segments_def segments_csv_foldl split: attr.splits)

lemma new_segment_rows_eq:
  assumes "rdheader e (data_dir @ ''/'' @ record_path @ ''/'' @ record_name) = Inr record"
      and "comments record \<noteq> PyNone" and "seg_name record = Val names"
  shows "new_segment_rows e data_dir skip_numerics out (record_path, record_name, subject_id) =
     List.map_filter
       (emitted_segment_row e (data_dir @ ''/'' @ record_path) record record_name
          (format_start (attr_or_empty PDatetime (base_datetime record))))
       (enumerate 0 names)"
proof -
  have sn: "seg_name record \<noteq> PyNone" using assms(3) by simp
  show ?thesis
    using assms
    by (simp add: new_segment_rows_def process_record_def Let_def
        record_row_eq [OF assms(2) sn] segments_csv_process_segments)
qed

lemma new_segment_rows_subset:
  "set (new_segment_rows e data_dir skip_numerics out (record_path, record_name, subject_id))
   \<subseteq> (case rdheader e (data_dir @ ''/'' @ record_path @ ''/'' @ record_name) of
        Inl err \<Rightarrow> {}
      | Inr record \<Rightarrow>
         (case seg_name record of
            Val names \<Rightarrow> set (List.map_filter
               (emitted_segment_row e (data_dir @ ''/'' @ record_path) record record_name
                  (format_start (attr_or_empty PDatetime (base_datetime record))))
               (enumerate 0 names))
          | _ \<Rightarrow> {}))"
  by (simp add: new_segment_rows_def process_record_def Let_def
        segments_csv_process_segments split: sum.splits attr.splits)

lemma segment_row_cells:
  assumes "segment_row record seg_header rn sd i name = Inr row"
  shows "row ! 1 = PStr name \<and> row ! 2 = PInt (int i) \<and>
         calc_seg_start_time record sd i = Inr (row ! 3)"
  using assms by (auto simp add: segment_row_def split: sum.splits)

lemma emitted_segment_row_cells:
  assumes "emitted_segment_row e fp record rn sd seg = Some row"
  shows "\<not> skip_segment (snd seg) \<and> row ! 1 = PStr (snd seg) \<and> row ! 2 = PInt (int (fst seg)) \<and>
         calc_seg_start_time record sd (fst seg) = Inr (row ! 3)"
proof -
  from assms have ns: "\<not> skip_segment (snd seg)"
    by (auto simp add: emitted_segment_row_def split: if_splits)
  from assms obtain h where
    "segment_row record h rn sd (fst seg) (snd seg) = Inr row"
    by (auto simp add: emitted_segment_row_def split: if_splits sum.splits)
  from segment_row_cells [OF this] ns show ?thesis by simp
qed

lemma strftime_nonempty: "strftime d \<noteq> []"
  by (simp add: strftime_def pad4_def)

lemma calc_seg_start_time_Val:
  assumes "base_datetime record = Val d" and "fs record = Val f" and "0 < f"
      and "seg_len record = Val lens"
  shows "calc_seg_start_time record (format_start (attr_or_empty PDatetime (base_datetime record))) N =
     Inr (if N = 0 then PStr ''''
          else (case add_seconds d (of_int (sum_list (take N lens)) / f) of
                  Inr t \<Rightarrow> PStr (strftime t) | Inl err \<Rightarrow> PStr ''''))"
  using assms
  by (simp add: calc_seg_start_time_def format_start_def strftime_nonempty hasattr_def
      py_gt0_def py_truediv_def plus_seconds_def split: sum.splits)

lemma map_filter_set: "row \<in> set (List.map_filter f xs) \<Longrightarrow> \<exists>x \<in> set xs. f x = Some row"
  by (auto simp add: List.map_filter_def)

lemma example_segment_rows: "new_segment_rows example_env ''/data'' False (initial_output False) readable_record =
    [[PStr ''83411188'', PStr ''seg1'', PInt 1, PStr ''2023-01-01 00:10:00'', PNum 1200,
      PStr ''seg1.hea'', PStr ''seg1.dat'', PNum 1, PInt 2],
     [PStr ''83411188'', PStr ''seg2'', PInt 3, PStr ''2023-01-01 00:30:00'', PNum 1800,
      PStr ''seg2.hea'', PStr ''seg2.dat'', PNum 1, PInt 2]]"
  by code_simp

text \<open>
  C2 as the code has it. In a record whose base timestamp is present, whose frequency
  is positive and whose \<open>seg_len\<close> is present, every segment row written carries its
  original index \<open>N\<close>; for \<open>N > 0\<close> its \<open>segment_start_time\<close> is the base timestamp plus
  (the sum of the sample lengths of the segments before index \<open>N\<close>, skipped ones
  included) divided by the frequency, in seconds, formatted (empty when that sum
  leaves the range of \<open>datetime\<close>); for \<open>N = 0\<close> the guard \<open>seg_num > 0\<close> leaves the
  field empty.
\<close>

theorem segment_start_time_offset:
  assumes "rdheader e (data_dir @ ''/'' @ record_path @ ''/'' @ record_name) = Inr record"
      and "base_datetime record = Val d" and "fs record = Val f" and "0 < f"
      and "seg_len record = Val lens"
  shows "\<forall>row \<in> set (new_segment_rows e data_dir skip_numerics out
                        (record_path, record_name, subject_id)).
           \<exists>N. row ! 2 = PInt (int N) \<and>
               row ! 3 =
                 (if N = 0 then PStr ''''
                  else (case add_seconds d (of_int (sum_list (take N lens)) / f) of
                          Inr t \<Rightarrow> PStr (strftime t) | Inl err \<Rightarrow> PStr ''''))"
proof
  fix row
  assume "row \<in> set (new_segment_rows e data_dir skip_numerics out
                        (record_path, record_name, subject_id))"
  with new_segment_rows_subset [of e data_dir skip_numerics out record_path record_name subject_id]
  obtain names where "seg_name record = Val names"
    and "row \<in> set (List.map_filter
               (emitted_segment_row e (data_dir @ ''/'' @ record_path) record record_name
                  (format_start (attr_or_empty PDatetime (base_datetime record))))
               (enumerate 0 names))"
    using assms(1) by (cases "seg_name record") auto
  then obtain seg where
    "emitted_segment_row e (data_dir @ ''/'' @ record_path) record record_name
        (format_start (attr_or_empty PDatetime (base_datetime record))) seg = Some row"
    using map_filter_set by fast
  from emitted_segment_row_cells [OF this]
  have "row ! 2 = PInt (int (fst seg))"
    and "calc_seg_start_time record (format_start (attr_or_empty PDatetime (base_datetime record)))
           (fst seg) = Inr (row ! 3)"
    by simp_all
  with calc_seg_start_time_Val [OF assms(2,3,4,5), of "fst seg"]
  show "\<exists>N. row ! 2 = PInt (int N) \<and>
               row ! 3 =
                 (if N = 0 then PStr ''''
                  else (case add_seconds d (of_int (sum_list (take N lens)) / f) of
                          Inr t \<Rightarrow> PStr (strftime t) | Inl err \<Rightarrow> PStr ''''))"
    by (intro exI [of _ "fst seg"]) simp
qed

theorem segment_start_time_offset_witness:
  "rdheader example_env (''/data'' @ ''/'' @ ''p100/p10014354/83411188'' @ ''/'' @ ''83411188'')
     = Inr example_record_header \<and>
   base_datetime example_record_header = Val new_year_2023 \<and>
   fs example_record_header = Val 1 \<and> (0 :: rat) < 1 \<and>
   seg_len example_record_header = Val [600, 1200, 0, 1800] \<and>
   (\<exists>N. [PStr ''83411188'', PStr ''seg2'', PInt 3, PStr ''2023-01-01 00:30:00'', PNum 1800,
          PStr ''seg2.hea'', PStr ''seg2.dat'', PNum 1, PInt 2] ! 2 = PInt (int N) \<and>
        [PStr ''83411188'', PStr ''seg2'', PInt 3, PStr ''2023-01-01 00:30:00'', PNum 1800,
          PStr ''seg2.hea'', PStr ''seg2.dat'', PNum 1, PInt 2] ! 3 =
          (if N = 0 then PStr ''''
           else (case add_seconds new_year_2023
                        (of_int (sum_list (take N [600, 1200, 0, 1800])) / 1) of
                   Inr t \<Rightarrow> PStr (strftime t) | Inl err \<Rightarrow> PStr '''')))"
proof -
  let ?r2 = "[PStr ''83411188'', PStr ''seg2'', PInt 3, PStr ''2023-01-01 00:30:00'', PNum 1800,
       PStr ''seg2.hea'', PStr ''seg2.dat'', PNum 1, PInt 2]"
  have h1: "rdheader example_env
      (''/data'' @ ''/'' @ ''p100/p10014354/83411188'' @ ''/'' @ ''83411188'')
     = Inr example_record_header"
    by (simp add: example_env_def)
  have h2: "base_datetime example_record_header = Val new_year_2023"
    and h3: "fs example_record_header = Val 1"
    and h5: "seg_len example_record_header = Val [600, 1200, 0, 1800]"
    by (simp_all add: example_record_header_def no_header_def)
  have h4: "(0 :: rat) < 1" by simp
  have mem: "?r2 \<in> set (new_segment_rows example_env ''/data'' False (initial_output False)
       (''p100/p10014354/83411188'', ''83411188'', 10014354))"
    using example_segment_rows by (simp add: readable_record_def)
  note inst = bspec [OF segment_start_time_offset [OF h1 h2 h3 h4 h5] mem]
  show ?thesis
    by (intro conjI) (rule h1 h2 h3 h4 h5 inst)+
qed

text \<open>
  The claim fails at index 0: the record has a base timestamp and frequency 1, its
  first segment is a real segment, and the row of that segment has an empty
  \<open>segment_start_time\<close>, not the base timestamp 2023-01-01 00:00:00.
\<close>

theorem segment_zero_start_time_counterexample:
  "new_segment_rows example_env ''/data'' False (initial_output False) plain_record =
    [[PStr ''85583557'', PStr ''s0'', PInt 0, PStr '''', PNum 1200,
      PStr ''s0.hea'', PStr ''s0.dat'', PNum 1, PInt 2],
     [PStr ''85583557'', PStr ''s1'', PInt 1, PStr ''2023-01-01 00:20:00'', PNum 1800,
      PStr ''s1.hea'', PStr ''s1.dat'', PNum 1, PInt 2]] \<and>
   base_datetime plain_record_header = Val new_year_2023 \<and>
   fs plain_record_header = Val 1 \<and>
   strftime new_year_2023 = ''2023-01-01 00:00:00''"
  by code_simp

lemma sorted_emitted_indices:
  "sorted_wrt (<) (map fst (filter P (enumerate 0 names)))"
proof -
  have "sorted_wrt (<) (map fst (enumerate 0 names))"
    by (simp add: map_fst_enumerate)
  then have "sorted_wrt (\<lambda>x y. fst x < fst y) (enumerate 0 names)"
    by (simp only: sorted_wrt_map)
  then have "sorted_wrt (\<lambda>x y. fst x < fst y) (filter P (enumerate 0 names))"
    by (rule sorted_wrt_filter)
  then show ?thesis by (simp only: sorted_wrt_map)
qed

lemma map_filter_segment_nums:
  "map (\<lambda>row. row ! 2) (List.map_filter (emitted_segment_row e fp record rn sd) segs) =
   map (\<lambda>i. PInt (int i))
     (map fst (filter (\<lambda>seg. emitted_segment_row e fp record rn sd seg \<noteq> None) segs))"
proof (induction segs)
  case Nil
  show ?case by (simp add: List.map_filter_simps)
next
  case (Cons seg segs)
  show ?case
  proof (cases "emitted_segment_row e fp record rn sd seg")
    case None
    with Cons.IH show ?thesis by (simp add: List.map_filter_simps)
  next
    case (Some row)
    from emitted_segment_row_cells [OF Some] have "row ! 2 = PInt (int (fst seg))" by simp
    with Some Cons.IH show ?thesis by (simp add: List.map_filter_simps)
  qed
qed

lemma skip_segment_layout:
  "skip_segment ''~''" "skip_segment ''rec_0000''"
  "\<not> skip_segment ''seg1''" "\<not> skip_segment ''seg2''"
  by code_simp+

text \<open>
  C7. The segment rows of a record come from segments whose name is not \<open>~\<close>, does not
  contain \<open>_layout\<close> and does not end with \<open>_0000\<close>; the \<open>segment_num\<close> of a row is the
  position of its segment in the unfiltered list \<open>seg_name\<close>, and the rows are written
  in the order of the list (their positions increase). For the list
  \<open>["~", "seg1", "rec_0000", "seg2"]\<close>, when the iterations for \<open>seg1\<close> and \<open>seg2\<close> write
  their rows (the segment headers are read), exactly these two rows are written, with
  \<open>segment_num\<close> 1 and 3.
\<close>

theorem segment_rows_numbering:
  assumes "rdheader e (data_dir @ ''/'' @ record_path @ ''/'' @ record_name) = Inr record"
      and "comments record \<noteq> PyNone" and "seg_name record = Val names"
  shows "(\<forall>row \<in> set (new_segment_rows e data_dir skip_numerics out
                          (record_path, record_name, subject_id)).
            \<exists>i < length names. \<not> skip_segment (names ! i) \<and>
               row ! 1 = PStr (names ! i) \<and> row ! 2 = PInt (int i)) \<and>
         (\<exists>idxs. sorted_wrt (<) idxs \<and>
            map (\<lambda>row. row ! 2) (new_segment_rows e data_dir skip_numerics out
                                    (record_path, record_name, subject_id)) =
              map (\<lambda>i. PInt (int i)) idxs) \<and>
         (names = [''~'', ''seg1'', ''rec_0000'', ''seg2''] \<and>
          emitted_segment_row e (data_dir @ ''/'' @ record_path) record record_name
            (format_start (attr_or_empty PDatetime (base_datetime record))) (1, ''seg1'') = Some r1 \<and>
          emitted_segment_row e (data_dir @ ''/'' @ record_path) record record_name
            (format_start (attr_or_empty PDatetime (base_datetime record))) (3, ''seg2'') = Some r2
          \<longrightarrow>
          new_segment_rows e data_dir skip_numerics out (record_path, record_name, subject_id)
            = [r1, r2] \<and>
          r1 ! 1 = PStr ''seg1'' \<and> r1 ! 2 = PInt 1 \<and> r2 ! 1 = PStr ''seg2'' \<and> r2 ! 2 = PInt 3)"
proof -
  let ?f = "emitted_segment_row e (data_dir @ ''/'' @ record_path) record record_name
              (format_start (attr_or_empty PDatetime (base_datetime record)))"
  let ?new = "new_segment_rows e data_dir skip_numerics out (record_path, record_name, subject_id)"
  have new: "?new = List.map_filter ?f (enumerate 0 names)"
    using assms by (rule new_segment_rows_eq)
  have a: "\<forall>row \<in> set ?new. \<exists>i < length names. \<not> skip_segment (names ! i) \<and>
               row ! 1 = PStr (names ! i) \<and> row ! 2 = PInt (int i)"
  proof
    fix row
    assume "row \<in> set ?new"
    then obtain seg where seg: "seg \<in> set (enumerate 0 names)" and some: "?f seg = Some row"
      unfolding new using map_filter_set by fast
    from seg have i: "fst seg < length names" and n: "names ! fst seg = snd seg"
      by (simp_all add: in_set_enumerate_eq)
    from emitted_segment_row_cells [OF some] i n
    show "\<exists>i < length names. \<not> skip_segment (names ! i) \<and>
               row ! 1 = PStr (names ! i) \<and> row ! 2 = PInt (int i)"
      by (intro exI [of _ "fst seg"]) simp
  qed
  have b: "\<exists>idxs. sorted_wrt (<) idxs \<and>
            map (\<lambda>row. row ! 2) ?new = map (\<lambda>i. PInt (int i)) idxs"
    unfolding new
    by (intro exI [of _ "map fst (filter (\<lambda>seg. ?f seg \<noteq> None) (enumerate 0 names))"]
          conjI sorted_emitted_indices map_filter_segment_nums)
  have c: "?new = [r1, r2] \<and>
          r1 ! 1 = PStr ''seg1'' \<and> r1 ! 2 = PInt 1 \<and> r2 ! 1 = PStr ''seg2'' \<and> r2 ! 2 = PInt 3"
    if n: "names = [''~'', ''seg1'', ''rec_0000'', ''seg2'']"
      and s1: "?f (1, ''seg1'') = Some r1" and s2: "?f (3, ''seg2'') = Some r2"
  proof -
    have z0: "?f (0, ''~'') = None" and z2: "?f (2, ''rec_0000'') = None"
      by (simp_all add: emitted_segment_row_def skip_segment_layout)
    have e: "enumerate 0 names = [(0, ''~''), (1, ''seg1''), (2, ''rec_0000''), (3, ''seg2'')]"
      unfolding n by (simp add: numeral_eq_Suc)
    have "?new = [r1, r2]"
      unfolding new e using z0 z2 s1 s2 by (simp add: List.map_filter_simps)
    moreover from emitted_segment_row_cells [OF s1] have "r1 ! 1 = PStr ''seg1''" "r1 ! 2 = PInt 1"
      by simp_all
    moreover from emitted_segment_row_cells [OF s2] have "r2 ! 1 = PStr ''seg2''" "r2 ! 2 = PInt 3"
      by simp_all
    ultimately show ?thesis by simp
  qed
  from a b c show ?thesis by blast
qed

theorem segment_rows_numbering_witness:
  "rdheader example_env (''/data'' @ ''/'' @ ''p100/p10014354/83411188'' @ ''/'' @ ''83411188'')
     = Inr example_record_header \<and>
   comments example_record_header \<noteq> PyNone \<and>
   seg_name example_record_header = Val [''~'', ''seg1'', ''rec_0000'', ''seg2''] \<and>
   new_segment_rows example_env ''/data'' False (initial_output False)
       (''p100/p10014354/83411188'', ''83411188'', 10014354) =
     [[PStr ''83411188'', PStr ''seg1'', PInt 1, PStr ''2023-01-01 00:10:00'', PNum 1200,
       PStr ''seg1.hea'', PStr ''seg1.dat'', PNum 1, PInt 2],
      [PStr ''83411188'', PStr ''seg2'', PInt 3, PStr ''2023-01-01 00:30:00'', PNum 1800,
       PStr ''seg2.hea'', PStr ''seg2.dat'', PNum 1, PInt 2]]"
proof -
  let ?r1 = "[PStr ''83411188'', PStr ''seg1'', PInt 1, PStr ''2023-01-01 00:10:00'', PNum 1200,
       PStr ''seg1.hea'', PStr ''seg1.dat'', PNum 1, PInt 2]"
  let ?r2 = "[PStr ''83411188'', PStr ''seg2'', PInt 3, PStr ''2023-01-01 00:30:00'', PNum 1800,
       PStr ''seg2.hea'', PStr ''seg2.dat'', PNum 1, PInt 2]"
  have h1: "rdheader example_env
      (''/data'' @ ''/'' @ ''p100/p10014354/83411188'' @ ''/'' @ ''83411188'')
     = Inr example_record_header"
    by (simp add: example_env_def)
  have h2: "comments example_record_header \<noteq> PyNone"
    and h3: "seg_name example_record_header = Val [''~'', ''seg1'', ''rec_0000'', ''seg2'']"
    by (simp_all add: example_record_header_def no_header_def)
  have s1: "emitted_segment_row example_env (''/data'' @ ''/'' @ ''p100/p10014354/83411188'')
      example_record_header ''83411188''
      (format_start (attr_or_empty PDatetime (base_datetime example_record_header)))
      (1, ''seg1'') = Some ?r1"
    by code_simp
  have s2: "emitted_segment_row example_env (''/data'' @ ''/'' @ ''p100/p10014354/83411188'')
      example_record_header ''83411188''
      (format_start (attr_or_empty PDatetime (base_datetime example_record_header)))
      (3, ''seg2'') = Some ?r2"
    by code_simp
  have n: "[''~'', ''seg1'', ''rec_0000'', ''seg2''] = [''~'', ''seg1'', ''rec_0000'', ''seg2'']"
    by (rule refl)
  note t = segment_rows_numbering [OF h1 h2 h3, of False "initial_output False" 10014354 ?r1 ?r2]
  from t have imp: "[''~'', ''seg1'', ''rec_0000'', ''seg2''] = [''~'', ''seg1'', ''rec_0000'', ''seg2''] \<and>
      emitted_segment_row example_env (''/data'' @ ''/'' @ ''p100/p10014354/83411188'')
        example_record_header ''83411188''
        (format_start (attr_or_empty PDatetime (base_datetime example_record_header)))
        (1, ''seg1'') = Some ?r1 \<and>
      emitted_segment_row example_env (''/data'' @ ''/'' @ ''p100/p10014354/83411188'')
        example_record_header ''83411188''
        (format_start (attr_or_empty PDatetime (base_datetime example_record_header)))
        (3, ''seg2'') = Some ?r2 \<longrightarrow>
      new_segment_rows example_env ''/data'' False (initial_output False)
         (''p100/p10014354/83411188'', ''83411188'', 10014354) = [?r1, ?r2] \<and>
      ?r1 ! 1 = PStr ''seg1'' \<and> ?r1 ! 2 = PInt 1 \<and> ?r2 ! 1 = PStr ''seg2'' \<and> ?r2 ! 2 = PInt 3"
    by (rule conjunct2 [THEN conjunct2])
  have rows: "new_segment_rows example_env ''/data'' False (initial_output False)
         (''p100/p10014354/83411188'', ''83411188'', 10014354) = [?r1, ?r2]"
    by (rule conjunct1 [OF mp [OF imp conjI [OF n conjI [OF s1 s2]]]])
  show ?thesis
    by (intro conjI) (rule h1 h2 h3 rows)+
qed

section \<open>Properties of the corpus scanner\<close>

lemma py_int_examples:
  "py_int ''10014354'' = Inr 10014354" "py_int '' 12 '' = Inr 12" "py_int ''1_0'' = Inr 10"
  "py_int ''-5'' = Inr (- 5)" "py_int ''XYZ'' = Inl ValueError" "py_int '''' = Inl ValueError"
  "py_int [CHR 0x1F, CHR ''1'', CHR ''2''] = Inl ValueError"
  by code_simp+

lemma py_int_error: "py_int s = Inl err \<Longrightarrow> err = ValueError"
  by (simp add: py_int_def Let_def split: if_splits)

lemma scan_record_dirs_eq:
  "scan_record_dirs p_name patient_name subject_id entries =
     (if filter (\<lambda>en. is_dir (snd en) \<and> exists_in (snd en) (fst en @ ''.hea'')) entries = []
      then Inr []
      else (case py_int subject_id of
              Inl err \<Rightarrow> Inl ValueError
            | Inr sid \<Rightarrow>
                Inr (map (\<lambda>en. (p_name @ ''/'' @ patient_name @ ''/'' @ fst en, fst en, sid))
                       (filter (\<lambda>en. is_dir (snd en) \<and> exists_in (snd en) (fst en @ ''.hea''))
                          entries))))"
proof (induction entries)
  case Nil
  show ?case by simp
next
  case (Cons en entries)
  obtain record_name record_dir where en: "en = (record_name, record_dir)" by (cases en) auto
  show ?case
    unfolding en using Cons.IH
    by (auto simp add: split: sum.splits dest: py_int_error)
qed

lemma scan_patient_dir_eq:
  "scan_record_dirs p_name (fst pe) (drop 1 (fst pe)) (sorted_iterdir (snd pe)) =
     (if patient_raises pe then Inl ValueError else Inr (patient_tuples p_name pe))"
  unfolding scan_record_dirs_eq
  by (auto simp add: patient_raises_def patient_tuples_def valid_record_dirs_def
      split: sum.splits dest: py_int_error)

lemma scan_patient_dirs_eq:
  "scan_patient_dirs p_name pts =
     (if list_ex patient_raises (filter (\<lambda>en. is_dir (snd en)) pts) then Inl ValueError
      else Inr (concat (map (patient_tuples p_name) (filter (\<lambda>en. is_dir (snd en)) pts))))"
proof (induction pts)
  case Nil
  show ?case by simp
next
  case (Cons pe pts)
  obtain patient_name patient_dir where pe: "pe = (patient_name, patient_dir)" by (cases pe) auto
  have s: "scan_record_dirs p_name patient_name (drop 1 patient_name) (sorted_iterdir patient_dir) =
     (if patient_raises pe then Inl ValueError else Inr (patient_tuples p_name pe))"
    using scan_patient_dir_eq [of p_name pe] by (simp add: pe)
  show ?case
    unfolding pe using Cons.IH s by (simp add: pe)
qed

lemma scan_p_dirs_eq:
  "scan_p_dirs ges =
     (if list_ex group_raises (filter (\<lambda>en. is_dir (snd en)) ges) then Inl ValueError
      else Inr (concat (map group_tuples (filter (\<lambda>en. is_dir (snd en)) ges))))"
proof (induction ges)
  case Nil
  show ?case by simp
next
  case (Cons ge ges)
  obtain p_name p_dir where ge: "ge = (p_name, p_dir)" by (cases ge) auto
  have s: "scan_patient_dirs p_name (sorted_glob_p p_dir) =
      (if group_raises ge then Inl ValueError else Inr (group_tuples ge))"
    by (simp add: scan_patient_dirs_eq group_raises_def group_tuples_def sorted_p_dirs_def ge)
  show ?case
    using Cons.IH s by (simp add: ge)
qed

lemma sorted_glob_p_filter:
  "sorted_glob_p (Dir (filter (\<lambda>en. startswith (fst en) ''p'' \<and> is_dir (snd en)) entries)) =
   filter (\<lambda>en. is_dir (snd en)) (sorted_glob_p (Dir entries))"
  by (auto simp add: sorted_glob_p_def filter_sort
      intro!: arg_cong [where f = "sort_key fst"] filter_cong)

text \<open>
  C4 as the code has it. Under the root and under a group directory only directories
  whose name starts with \<open>p\<close> are looked at; the others, plain files and record
  directories without their own header file are skipped without an error (the result
  is the result on the tree without them). A subject directory whose name after the
  \<open>p\<close> is not an integer literal is skipped silently only when it holds no record
  directory with its header: otherwise \<open>int(subject_id)\<close> raises ValueError, the scan
  returns no tuple at all, and \<open>main\<close> ends with that exception. When no subject
  directory raises, the scan returns the tuples of all conforming record directories
  in sorted order. A root that is missing or is not a directory is reported by
  \<open>main\<close> before the scan.
\<close>

theorem find_all_records_result:
  "find_all_records data_path =
     (if list_ex group_raises (sorted_p_dirs data_path) then Inl ValueError
      else Inr (concat (map group_tuples (sorted_p_dirs data_path)))) \<and>
   find_all_records (Dir entries) =
     find_all_records
       (Dir (filter (\<lambda>en. startswith (fst en) ''p'' \<and> is_dir (snd en)) entries)) \<and>
   main None e data_dir skip_numerics = Exit1 ''Error: Data directory not found'' \<and>
   main (Some File) e data_dir skip_numerics = Exit1 ''Error: Data directory not found'' \<and>
   (list_ex group_raises (sorted_p_dirs data_path) \<longrightarrow>
      main (Some data_path) e data_dir skip_numerics = Raised ValueError)"
proof -
  have a: "find_all_records d =
     (if list_ex group_raises (sorted_p_dirs d) then Inl ValueError
      else Inr (concat (map group_tuples (sorted_p_dirs d))))" for d
    by (simp add: find_all_records_def scan_p_dirs_eq sorted_p_dirs_def)
  have b: "sorted_p_dirs (Dir (filter (\<lambda>en. startswith (fst en) ''p'' \<and> is_dir (snd en)) entries))
      = sorted_p_dirs (Dir entries)"
    by (simp add: sorted_p_dirs_def sorted_glob_p_filter)
  have c: "main (Some data_path) e data_dir skip_numerics = Raised ValueError"
    if "list_ex group_raises (sorted_p_dirs data_path)"
  proof (cases data_path)
    case File
    with that show ?thesis by (simp add: sorted_p_dirs_def sorted_glob_p_def)
  next
    case (Dir ens)
    with that a [of data_path] show ?thesis by (simp add: main_def)
  qed
  from c show ?thesis
    by (simp add: a b main_def)
qed

theorem find_all_records_result_witness:
  "list_ex group_raises (sorted_p_dirs corpus_with_bad_subject) \<and>
   main (Some corpus_with_bad_subject) example_env ''/data'' False = Raised ValueError \<and>
   \<not> list_ex group_raises (sorted_p_dirs corpus_with_empty_bad_subject) \<and>
   concat (map group_tuples (sorted_p_dirs corpus_with_empty_bad_subject)) =
     [(''p100/p10014354/83411188'', ''83411188'', 10014354)] \<and>
   find_all_records corpus_with_empty_bad_subject =
     Inr [(''p100/p10014354/83411188'', ''83411188'', 10014354)]"
proof -
  have g: "list_ex group_raises (sorted_p_dirs corpus_with_bad_subject)" by code_simp
  have n: "\<not> list_ex group_raises (sorted_p_dirs corpus_with_empty_bad_subject)" by code_simp
  have v: "concat (map group_tuples (sorted_p_dirs corpus_with_empty_bad_subject)) =
     [(''p100/p10014354/83411188'', ''83411188'', 10014354)]" by code_simp
  note t = find_all_records_result [of corpus_with_bad_subject "[]" example_env "''/data''" False]
  have m: "main (Some corpus_with_bad_subject) example_env ''/data'' False = Raised ValueError"
    by (rule mp [OF t [THEN conjunct2, THEN conjunct2, THEN conjunct2, THEN conjunct2] g])
  note u = find_all_records_result [of corpus_with_empty_bad_subject "[]" example_env "''/data''"
      False, THEN conjunct1]
  have f: "find_all_records corpus_with_empty_bad_subject =
     Inr [(''p100/p10014354/83411188'', ''83411188'', 10014354)]"
    using u n v by simp
  show ?thesis
    by (intro conjI) (rule g m n v f)+
qed

text \<open>
  The claim fails on a corpus with a subject directory \<open>pXYZ\<close> that holds a record: the
  scan raises ValueError, and the tuple of the conforming record directory
  \<open>p100/p10014354/83411188\<close> (a valid record directory under a numeric subject
  directory) is not returned.
\<close>

theorem bad_subject_dir_counterexample:
  "find_all_records corpus_with_bad_subject = Inl ValueError \<and>
   main (Some corpus_with_bad_subject) example_env ''/data'' False = Raised ValueError \<and>
   valid_record_dirs (Dir [(''83411188'', Dir [(''83411188.hea'', File)])]) =
     [(''83411188'', Dir [(''83411188.hea'', File)])] \<and>
   py_int ''10014354'' = Inr 10014354"
proof -
  have "find_all_records corpus_with_bad_subject = Inl ValueError" by code_simp
  moreover have "valid_record_dirs (Dir [(''83411188'', Dir [(''83411188.hea'', File)])]) =
     [(''83411188'', Dir [(''83411188.hea'', File)])]" by code_simp
  moreover have "py_int ''10014354'' = Inr 10014354" by code_simp
  ultimately show ?thesis by (simp add: main_def corpus_with_bad_subject_def)
qed

section \<open>Properties of the numerics row mapper\<close>

lemma first_rule_cases:
  "first_rule col =
     (if contains (lower col) ''spo2'' \<or> contains (lower col) ''sp02'' then Some ''spo2''
      else if contains (lower col) ''hr'' \<and> contains (lower col) ''heart'' then Some ''heart_rate''
      else if contains (lower col) ''rr'' \<and> contains (lower col) ''resp'' then Some ''resp_rate''
      else if contains (lower col) ''nibp'' then Some ''nibp''
      else if contains (lower col) ''abp'' then Some ''abp''
      else if contains (lower col) ''cvp'' then Some ''cvp''
      else if contains (lower col) ''etco2'' then Some ''etco2''
      else if contains (lower col) ''temp'' then Some ''temperature''
      else None)"
  by (simp add: first_rule_def numerics_rules_def)

lemma apply_rule_simps:
  "apply_rule (Some ''spo2'') col v s = s\<lparr>spo2 := PInt (int_of_float v)\<rparr>"
  "apply_rule (Some ''heart_rate'') col v s = s\<lparr>hr := PInt (int_of_float v)\<rparr>"
  "apply_rule (Some ''resp_rate'') col v s = s\<lparr>rr := PInt (int_of_float v)\<rparr>"
  "apply_rule (Some ''nibp'') col v s =
        (if contains (lower col) ''sys'' then s\<lparr>nibp_sys := PInt (int_of_float v)\<rparr>
         else if contains (lower col) ''dias'' then s\<lparr>nibp_dias := PInt (int_of_float v)\<rparr>
         else if contains (lower col) ''mean'' then s\<lparr>nibp_mean := PInt (int_of_float v)\<rparr>
         else s)"
  "apply_rule (Some ''abp'') col v s =
        (if contains (lower col) ''sys'' then s\<lparr>abp_sys := PInt (int_of_float v)\<rparr>
         else if contains (lower col) ''dias'' then s\<lparr>abp_dias := PInt (int_of_float v)\<rparr>
         else if contains (lower col) ''mean'' then s\<lparr>abp_mean := PInt (int_of_float v)\<rparr>
         else s)"
  "apply_rule (Some ''cvp'') col v s = s\<lparr>cvp := PNum v\<rparr>"
  "apply_rule (Some ''etco2'') col v s = s\<lparr>etco2 := PNum v\<rparr>"
  "apply_rule (Some ''temperature'') col v s = s\<lparr>temp := PNum v\<rparr>"
  "apply_rule None col v s =
     (if truthy (meas_name s) then s else s\<lparr>meas_name := PStr col, meas_val := PNum v\<rparr>)"
  unfolding apply_rule_def by simp_all

lemma column_step_Some:
  "column_step s (col, Some v) =
     (if contains (lower col) ''spo2'' \<or> contains (lower col) ''sp02''
        then apply_rule (Some ''spo2'') col v s
      else if contains (lower col) ''hr'' \<and> contains (lower col) ''heart''
        then apply_rule (Some ''heart_rate'') col v s
      else if contains (lower col) ''rr'' \<and> contains (lower col) ''resp''
        then apply_rule (Some ''resp_rate'') col v s
      else if contains (lower col) ''nibp'' then apply_rule (Some ''nibp'') col v s
      else if contains (lower col) ''abp'' then apply_rule (Some ''abp'') col v s
      else if contains (lower col) ''cvp'' then apply_rule (Some ''cvp'') col v s
      else if contains (lower col) ''etco2'' then apply_rule (Some ''etco2'') col v s
      else if contains (lower col) ''temp'' then apply_rule (Some ''temperature'') col v s
      else apply_rule None col v s)"
  unfolding apply_rule_simps column_step_def Let_def by simp

lemma column_step_first_rule:
  "column_step s (col, Some v) = apply_rule (first_rule col) col v s"
  unfolding column_step_Some first_rule_cases by simp

lemma column_step_missing: "column_step s (col, None) = s"
  by (simp add: column_step_def)

lemma column_step_unmatched:
  "first_rule col = None \<Longrightarrow>
   column_step s (col, Some v) =
     (if truthy (meas_name s) then s else s\<lparr>meas_name := PStr col, meas_val := PNum v\<rparr>)"
  by (simp add: column_step_first_rule apply_rule_simps)

lemma first_rule_range:
  "first_rule col \<in> {Some ''spo2'', Some ''heart_rate'', Some ''resp_rate'', Some ''nibp'',
      Some ''abp'', Some ''cvp'', Some ''etco2'', Some ''temperature'', None}"
  unfolding first_rule_cases by simp

lemma apply_rule_generic_kept:
  "rule \<in> {Some ''spo2'', Some ''heart_rate'', Some ''resp_rate'', Some ''nibp'',
      Some ''abp'', Some ''cvp'', Some ''etco2'', Some ''temperature''} \<Longrightarrow>
   meas_name (apply_rule rule col v s) = meas_name s \<and>
   meas_val (apply_rule rule col v s) = meas_val s"
  by (auto simp add: apply_rule_simps)

lemma apply_rule_unit: "meas_unit (apply_rule rule col v s) = meas_unit s"
  unfolding apply_rule_def by simp

lemma column_step_matched:
  assumes "first_rule col \<noteq> None"
  shows "meas_name (column_step s (col, Some v)) = meas_name s \<and>
         meas_val (column_step s (col, Some v)) = meas_val s"
proof -
  from assms first_rule_range [of col]
  have "first_rule col \<in> {Some ''spo2'', Some ''heart_rate'', Some ''resp_rate'', Some ''nibp'',
      Some ''abp'', Some ''cvp'', Some ''etco2'', Some ''temperature''}"
    by (simp only: insert_iff empty_iff) (elim disjE; simp)
  then show ?thesis
    unfolding column_step_first_rule by (rule apply_rule_generic_kept)
qed

lemma column_step_unit: "meas_unit (column_step s cv) = meas_unit s"
proof (cases cv)
  case (Pair col v)
  show ?thesis
    by (cases v) (simp_all add: Pair column_step_missing column_step_first_rule apply_rule_unit)
qed

lemma foldl_column_step_unit: "meas_unit (foldl column_step s cols) = meas_unit s"
  by (induction cols arbitrary: s) (simp_all add: column_step_unit)

lemma foldl_generic_kept:
  "truthy (meas_name s) \<Longrightarrow>
   meas_name (foldl column_step s cols) = meas_name s \<and>
   meas_val (foldl column_step s cols) = meas_val s"
proof (induction cols arbitrary: s)
  case Nil
  show ?case by simp
next
  case (Cons cv cols)
  obtain col v where cv: "cv = (col, v)" by (cases cv) auto
  have "meas_name (column_step s cv) = meas_name s \<and> meas_val (column_step s cv) = meas_val s"
  proof (cases v)
    case None
    then show ?thesis by (simp add: cv column_step_missing)
  next
    case (Some x)
    show ?thesis
    proof (cases "first_rule col = None")
      case True
      with Cons.prems show ?thesis by (simp add: cv Some column_step_unmatched)
    next
      case False
      then show ?thesis by (simp add: cv Some column_step_matched)
    qed
  qed
  with Cons.prems Cons.IH [of "column_step s cv"] show ?case by simp
qed

lemma foldl_generic_first:
  assumes "\<not> truthy (meas_name s)" and "list_all (\<lambda>cv. fst cv \<noteq> []) cols"
  shows "(meas_name (foldl column_step s cols), meas_val (foldl column_step s cols)) =
     (case generic_candidates cols of
        [] \<Rightarrow> (meas_name s, meas_val s)
      | cv # rest \<Rightarrow>
          (PStr (fst cv), (case snd cv of Some x \<Rightarrow> PNum x | None \<Rightarrow> PStr '''')))"
  using assms
proof (induction cols arbitrary: s)
  case Nil
  show ?case by (simp add: generic_candidates_def)
next
  case (Cons cv cols)
  obtain col v where cv: "cv = (col, v)" by (cases cv) auto
  from Cons.prems have ne: "col \<noteq> []" and rest: "list_all (\<lambda>cv. fst cv \<noteq> []) cols"
    by (simp_all add: cv)
  show ?case
  proof (cases "v \<noteq> None \<and> first_rule col = None")
    case True
    then obtain x where x: "v = Some x" by auto
    from True Cons.prems
    have st: "column_step s (col, Some x) = s\<lparr>meas_name := PStr col, meas_val := PNum x\<rparr>"
      by (simp add: column_step_unmatched)
    have "truthy (meas_name (column_step s (col, Some x)))" using ne by (simp add: st)
    from foldl_generic_kept [OF this, of cols] True
    show ?thesis by (simp add: generic_candidates_def cv x st)
  next
    case False
    have keep: "meas_name (column_step s (col, v)) = meas_name s \<and>
                meas_val (column_step s (col, v)) = meas_val s"
    proof (cases v)
      case None
      then show ?thesis by (simp add: column_step_missing)
    next
      case (Some x)
      with False have "first_rule col \<noteq> None" by simp
      then show ?thesis by (simp add: Some column_step_matched)
    qed
    then have nt: "\<not> truthy (meas_name (column_step s (col, v)))" using Cons.prems by simp
    have gc: "generic_candidates (cv # cols) = generic_candidates cols"
      using False by (auto simp add: generic_candidates_def cv)
    show ?thesis
      unfolding gc using Cons.IH [OF nt rest] keep by (simp add: cv split: list.splits)
  qed
qed

lemma map_columns_generic:
  assumes "list_all (\<lambda>cv. fst cv \<noteq> []) cols"
  shows "(meas_name (map_columns cols), meas_val (map_columns cols), meas_unit (map_columns cols)) =
     (case generic_candidates cols of
        [] \<Rightarrow> (PStr '''', PStr '''', PStr '''')
      | cv # rest \<Rightarrow>
          (PStr (fst cv), (case snd cv of Some x \<Rightarrow> PNum x | None \<Rightarrow> PStr ''''), PStr ''''))"
proof -
  have e: "\<not> truthy (meas_name empty_slots)" "meas_name empty_slots = PStr ''''"
    "meas_val empty_slots = PStr ''''" "meas_unit empty_slots = PStr ''''"
    by (simp_all add: empty_slots_def)
  from foldl_generic_first [OF e(1) assms] e(2,3,4) foldl_column_step_unit [of empty_slots cols]
  show ?thesis
    by (simp add: map_columns_def split: list.splits)
qed

lemma numerics_row_generic_cells:
  assumes "numerics_row record record_name base_freq columns (t # vs) = Inr row"
  shows "row ! 15 = meas_name (map_columns (zip (tl columns) vs)) \<and>
         row ! 16 = meas_val (map_columns (zip (tl columns) vs)) \<and>
         row ! 17 = meas_unit (map_columns (zip (tl columns) vs)) \<and>
         row ! 3 = hr (map_columns (zip (tl columns) vs))"
  using assms
  by (cases t) (auto simp add: numerics_row_def Let_def split: sum.splits)

lemma zip_names_nonempty:
  "list_all (\<lambda>c. c \<noteq> []) cs \<Longrightarrow> list_all (\<lambda>cv. fst cv \<noteq> []) (zip cs vs)"
  by (auto simp add: list_all_iff dest: set_zip_leftD)

text \<open>
  C8 as the code has it. A column with a missing value changes nothing. A column with
  a value is handled by the first rule of the code's chain (\<open>numerics_rules\<close>) that
  matches its lower-cased name, and by that rule alone; a name containing \<open>nibp\<close> or
  \<open>abp\<close> is taken by the pressure rule whether or not it names \<open>sys\<close>, \<open>dias\<close> or
  \<open>mean\<close>, and is stored nowhere when it names none. The name \<open>HR\<close> matches no rule
  (it has \<open>hr\<close> but not \<open>heart\<close>): with the generic slot still empty it is stored
  there, and the heart-rate slot is left as it is. In the row written for an input
  row whose column names are not empty (as \<open>pandas\<close> names them), the generic slot
  holds the first column that has a value and that no rule of the chain matches,
  with an empty unit; the later such columns leave no trace in it.
\<close>

theorem numerics_generic_slot:
  "first_rule ''HR'' = None \<and>
   column_step s (col, None) = s \<and>
   column_step s (col, Some v) = apply_rule (first_rule col) col v s \<and>
   (\<not> truthy (meas_name s) \<longrightarrow>
      column_step s (''HR'', Some v) = s\<lparr>meas_name := PStr ''HR'', meas_val := PNum v\<rparr>) \<and>
   (list_all (\<lambda>c. c \<noteq> []) (tl columns) \<and>
    numerics_row record record_name base_freq columns (t # vs) = Inr row \<longrightarrow>
      (row ! 15, row ! 16, row ! 17) =
        (case generic_candidates (zip (tl columns) vs) of
           [] \<Rightarrow> (PStr '''', PStr '''', PStr '''')
         | cv # rest \<Rightarrow>
             (PStr (fst cv), (case snd cv of Some x \<Rightarrow> PNum x | None \<Rightarrow> PStr ''''),
              PStr '''')))"
proof -
  have hr: "first_rule ''HR'' = None" by code_simp
  have a: "\<not> truthy (meas_name s) \<Longrightarrow>
      column_step s (''HR'', Some v) = s\<lparr>meas_name := PStr ''HR'', meas_val := PNum v\<rparr>"
    using column_step_unmatched [OF hr, of s v] by simp
  have b: "(row ! 15, row ! 16, row ! 17) =
        (case generic_candidates (zip (tl columns) vs) of
           [] \<Rightarrow> (PStr '''', PStr '''', PStr '''')
         | cv # rest \<Rightarrow>
             (PStr (fst cv), (case snd cv of Some x \<Rightarrow> PNum x | None \<Rightarrow> PStr ''''),
              PStr ''''))"
    if n: "list_all (\<lambda>c. c \<noteq> []) (tl columns)"
      and r: "numerics_row record record_name base_freq columns (t # vs) = Inr row"
    using map_columns_generic [OF zip_names_nonempty [OF n, of vs]]
      numerics_row_generic_cells [OF r] by simp
  from hr a b show ?thesis
    by (simp add: column_step_missing column_step_first_rule)
qed

theorem numerics_generic_slot_witness:
  "list_all (\<lambda>c. c \<noteq> []) (tl [''time'', ''HR'', ''SpO2'', ''UnknownMetric'']) \<and>
   numerics_row example_record_header ''83411188'' (PNum 1)
       [''time'', ''HR'', ''SpO2'', ''UnknownMetric''] (Some 0 # [Some 80, Some 97, Some 5]) =
     Inr [PStr ''83411188'', PStr ''2023-01-01 00:00:00'', PInt 0, PStr '''', PStr '''', PInt 97,
          PStr '''', PStr '''', PStr '''', PStr '''', PStr '''', PStr '''', PStr '''', PStr '''',
          PStr '''', PStr ''HR'', PNum 80, PStr ''''] \<and>
   generic_candidates (zip (tl [''time'', ''HR'', ''SpO2'', ''UnknownMetric''])
       [Some 80, Some 97, Some 5]) = [(''HR'', Some 80), (''UnknownMetric'', Some 5)] \<and>
   ([PStr ''83411188'', PStr ''2023-01-01 00:00:00'', PInt 0, PStr '''', PStr '''', PInt 97,
     PStr '''', PStr '''', PStr '''', PStr '''', PStr '''', PStr '''', PStr '''', PStr '''',
     PStr '''', PStr ''HR'', PNum 80, PStr ''''] ! 15,
    [PStr ''83411188'', PStr ''2023-01-01 00:00:00'', PInt 0, PStr '''', PStr '''', PInt 97,
     PStr '''', PStr '''', PStr '''', PStr '''', PStr '''', PStr '''', PStr '''', PStr '''',
     PStr '''', PStr ''HR'', PNum 80, PStr ''''] ! 16,
    [PStr ''83411188'', PStr ''2023-01-01 00:00:00'', PInt 0, PStr '''', PStr '''', PInt 97,
     PStr '''', PStr '''', PStr '''', PStr '''', PStr '''', PStr '''', PStr '''', PStr '''',
     PStr '''', PStr ''HR'', PNum 80, PStr ''''] ! 17) =
     (case generic_candidates (zip (tl [''time'', ''HR'', ''SpO2'', ''UnknownMetric''])
             [Some 80, Some 97, Some 5]) of
        [] \<Rightarrow> (PStr '''', PStr '''', PStr '''')
      | cv # rest \<Rightarrow>
          (PStr (fst cv), (case snd cv of Some x \<Rightarrow> PNum x | None \<Rightarrow> PStr ''''),
           PStr ''''))"
proof -
  let ?row = "[PStr ''83411188'', PStr ''2023-01-01 00:00:00'', PInt 0, PStr '''', PStr '''',
     PInt 97, PStr '''', PStr '''', PStr '''', PStr '''', PStr '''', PStr '''', PStr '''',
     PStr '''', PStr '''', PStr ''HR'', PNum 80, PStr '''']"
  have n: "list_all (\<lambda>c. c \<noteq> []) (tl [''time'', ''HR'', ''SpO2'', ''UnknownMetric''])"
    by simp
  have r: "numerics_row example_record_header ''83411188'' (PNum 1)
       [''time'', ''HR'', ''SpO2'', ''UnknownMetric''] (Some 0 # [Some 80, Some 97, Some 5]) =
     Inr ?row"
    by code_simp
  have g: "generic_candidates (zip (tl [''time'', ''HR'', ''SpO2'', ''UnknownMetric''])
       [Some 80, Some 97, Some 5]) = [(''HR'', Some 80), (''UnknownMetric'', Some 5)]"
    by code_simp
  note t = numerics_generic_slot [of empty_slots "[]" 0 "[''time'', ''HR'', ''SpO2'', ''UnknownMetric'']"
      example_record_header "''83411188''" "PNum 1" "Some 0" "[Some 80, Some 97, Some 5]" ?row]
  note inst = mp [OF t [THEN conjunct2, THEN conjunct2, THEN conjunct2, THEN conjunct2]
      conjI [OF n r]]
  show ?thesis
    by (intro conjI) (rule n r g inst)+
qed

text \<open>
  The claim fails for a column named \<open>NIBP\<close>: no rule stated in section 4.5 matches
  it (it names none of \<open>sys\<close>, \<open>dias\<close>, \<open>mean\<close>), it has a value and comes first, yet
  the code takes it in its \<open>nibp\<close> branch and stores it nowhere, and the generic slot
  of the row holds the later column \<open>Foo\<close>.
\<close>

theorem nibp_column_counterexample:
  "stated_first_rule ''NIBP'' = None \<and>
   stated_first_rule ''Foo'' = None \<and>
   first_rule ''NIBP'' = Some ''nibp'' \<and>
   numerics_row example_record_header ''83411188'' (PNum 1)
       [''time'', ''NIBP'', ''Foo''] [Some 0, Some 120, Some 5] =
     Inr [PStr ''83411188'', PStr ''2023-01-01 00:00:00'', PInt 0, PStr '''', PStr '''', PStr '''',
          PStr '''', PStr '''', PStr '''', PStr '''', PStr '''', PStr '''', PStr '''', PStr '''',
          PStr '''', PStr ''Foo'', PNum 5, PStr '''']"
  by code_simp

end
